theory Spec2Isabelle
  imports Complex_Main
begin

section \<open>Common data model\<close>

text \<open>
  The engine computes on Python floats. They are modelled as exact reals: rounding error
  of IEEE arithmetic, overflow to infinity and NaN are outside the model. Python integers
  (years, delays, horizons) are \<open>int\<close>. Every place where the source raises is a branch
  returning \<open>Inl\<close>.
\<close>

datatype py_error =
  IndexError | KeyError | ZeroDivisionError | TypeError | ValueError | AttributeError
  | UnboundLocalError

text \<open>
  One row of a prediction DataFrame (columns \<open>year\<close>, \<open>value\<close>, \<open>lower_bound\<close>,
  \<open>upper_bound\<close>, \<open>uncertainty\<close>). The constant columns \<open>quantum_enhanced\<close> and
  \<open>intervention\<close>, which the source adds with the value \<open>True\<close>, are flags of the row;
  a column that is absent is the flag \<open>False\<close>. The frames built by the source carry the
  default index 0, 1, 2, ..., so \<open>df.loc[i, c]\<close> is the i-th row.
\<close>

record row =
  year :: int
  val :: real
  lower_bound :: real
  upper_bound :: real
  uncertainty :: real
  quantum_enhanced :: bool
  intervention :: bool

text \<open>A \<open>for\<close> loop over the rows that stops at the first exception.\<close>

fun for_rows :: "('a \<Rightarrow> py_error + 'b) \<Rightarrow> 'a list \<Rightarrow> py_error + 'b list" where
  "for_rows f [] = Inr []"
| "for_rows f (x # xs) =
     (case f x of
        Inl e \<Rightarrow> Inl e
      | Inr y \<Rightarrow> (case for_rows f xs of Inl e \<Rightarrow> Inl e | Inr ys \<Rightarrow> Inr (y # ys)))"

text \<open>Indexing a numpy array with an integer: a negative index counts from the end.\<close>

definition np_index :: "'a list \<Rightarrow> int \<Rightarrow> py_error + 'a" where
  "np_index xs i =
     (if 0 \<le> i \<and> i < int (length xs) then Inr (xs ! nat i)
      else if i < 0 \<and> - int (length xs) \<le> i then Inr (xs ! nat (int (length xs) + i))
      else Inl IndexError)"

text \<open>\<open>df["year"].min()\<close>; the source evaluates it only inside a loop over the rows,
  so only on a frame that has a row.\<close>

definition year_min :: "row list \<Rightarrow> int" where
  "year_min rs = Min (set (map year rs))"

section \<open>Intervention overlay (utils/climate\_interventions.py)\<close>

record effect =
  factor_type :: string
  immediate_effect :: real
  annual_effect :: real
  saturation_level :: real
  delay_years :: int

text \<open>The logistic implementation curve over \<open>range(years + 1)\<close>, scaled by coverage.\<close>

definition implementation_curve :: "real \<Rightarrow> real \<Rightarrow> int \<Rightarrow> int \<Rightarrow> real list" where
  "implementation_curve implementation_speed coverage delay years =
     (let midpoint = real_of_int delay + 5 / implementation_speed;
          steepness = implementation_speed * 0.5
      in map (\<lambda>k. 1 / (1 + exp (- steepness * (real_of_int k - midpoint))) * coverage)
           [0..years])"

text \<open>The saturation test of the source:
  \<open>if abs(e) > saturation_level: e = -saturation_level if e < 0 else saturation_level\<close>.\<close>

definition clamp_effect :: "real \<Rightarrow> real \<Rightarrow> real" where
  "clamp_effect sat e = (if \<bar>e\<bar> > sat then (if e < 0 then - sat else sat) else e)"

text \<open>Writing a new value into a row and recomputing its bounds from the row's own
  uncertainty.\<close>

definition set_value :: "row \<Rightarrow> real \<Rightarrow> row" where
  "set_value r v =
     r\<lparr>val := v, lower_bound := v - 1.96 * uncertainty r, upper_bound := v + 1.96 * uncertainty r\<rparr>"

text \<open>Loop body for \<open>emission_reduction\<close>, \<open>carbon_sequestration\<close> and \<open>carbon_removal\<close>.\<close>

definition level_row :: "effect \<Rightarrow> real list \<Rightarrow> int \<Rightarrow> row \<Rightarrow> py_error + row" where
  "level_row e curve ymin r =
     (let year_index = year r - ymin in
      if year_index \<ge> delay_years e then
        (case np_index curve year_index of
           Inl err \<Rightarrow> Inl err
         | Inr c \<Rightarrow>
             let time_since_delay = year_index - delay_years e;
                 cumulative_effect = clamp_effect (saturation_level e)
                   ((immediate_effect e + annual_effect e * real_of_int time_since_delay) * c)
             in Inr (set_value r (val r * (1 + cumulative_effect))))
      else Inr r)"

text \<open>\<open>baseline.loc[baseline["year"] == baseline["year"].min() + delay_years, "value"].iloc[0]\<close>\<close>

definition first_affected_value :: "row list \<Rightarrow> int \<Rightarrow> py_error + real" where
  "first_affected_value baseline delay =
     (case filter (\<lambda>b. year b = year_min baseline + delay) baseline of
        [] \<Rightarrow> Inl IndexError
      | b # _ \<Rightarrow> Inr (val b))"

text \<open>Loop body for \<open>trend_reduction\<close>.\<close>

definition trend_row :: "effect \<Rightarrow> real list \<Rightarrow> row list \<Rightarrow> real \<Rightarrow> row \<Rightarrow> py_error + row" where
  "trend_row e curve baseline baseline_trend r =
     (let year_index = year r - year_min baseline in
      if year_index \<ge> delay_years e then
        (case np_index curve year_index of
           Inl err \<Rightarrow> Inl err
         | Inr c \<Rightarrow>
             let time_since_delay = year_index - delay_years e;
                 trend_effect = clamp_effect (saturation_level e)
                   ((immediate_effect e + annual_effect e * real_of_int time_since_delay) * c);
                 modified_trend = baseline_trend * (1 + trend_effect);
                 time_since_delay = (if time_since_delay > 0 then time_since_delay else 0)
             in (case first_affected_value baseline (delay_years e) of
                   Inl err \<Rightarrow> Inl err
                 | Inr fav \<Rightarrow>
                     Inr (set_value r (fav + modified_trend * real_of_int time_since_delay))))
      else Inr r)"

definition level_factor_types :: "string set" where
  "level_factor_types = {''emission_reduction'', ''carbon_sequestration'', ''carbon_removal''}"

text \<open>\<open>(baseline.iloc[-1]["value"] - baseline.iloc[0]["value"]) / len(baseline)\<close> on a
  baseline that has a row.\<close>

definition baseline_trend :: "row list \<Rightarrow> real" where
  "baseline_trend baseline = (val (last baseline) - val (hd baseline)) / real (length baseline)"

text \<open>The branch on \<open>factor_type\<close> with its loop. An empty baseline makes
  \<open>baseline.iloc[-1]\<close> raise in the trend branch; any other factor type leaves the copy
  of the baseline as it is.\<close>

definition overlay_rows :: "row list \<Rightarrow> effect \<Rightarrow> real list \<Rightarrow> py_error + row list" where
  "overlay_rows baseline e curve =
     (if factor_type e \<in> level_factor_types then
        for_rows (level_row e curve (year_min baseline)) baseline
      else if factor_type e = ''trend_reduction'' then
        (if baseline = [] then Inl IndexError
         else for_rows
                (trend_row e curve baseline (baseline_trend baseline)) baseline)
      else Inr baseline)"

text \<open>\<open>ClimateInterventionSimulator._apply_intervention_effect\<close>. A zero
  \<open>implementation_speed\<close> makes \<open>5.0 / implementation_speed\<close> raise.\<close>

definition apply_intervention_effect ::
  "row list \<Rightarrow> effect \<Rightarrow> (string \<rightharpoonup> real) \<Rightarrow> int \<Rightarrow> py_error + row list" where
  "apply_intervention_effect baseline e parameters years =
     (let implementation_speed =
            (case parameters ''implementation_speed'' of None \<Rightarrow> 0.5 | Some s \<Rightarrow> s);
          coverage = (case parameters ''coverage'' of None \<Rightarrow> 0.7 | Some c \<Rightarrow> c)
      in if implementation_speed = 0 then Inl ZeroDivisionError
         else
           (case overlay_rows baseline e
                   (implementation_curve implementation_speed coverage (delay_years e) years) of
              Inl err \<Rightarrow> Inl err
            | Inr rs \<Rightarrow> Inr (map (\<lambda>r. r\<lparr>intervention := True\<rparr>) rs)))"


section \<open>Baseline predictor (utils/quantum\_prediction.py)\<close>

text \<open>
  A historical DataFrame as the predictor reads it: its number of rows, its columns
  \<open>year\<close> and \<open>value\<close>, either of which may be missing, and whether it has any other
  column; a column that is present has \<open>row_count\<close> entries. \<open>historical_data.empty\<close>
  is the frame having no rows or no columns.
\<close>

record history =
  row_count :: nat
  year_column :: "int list option"
  value_column :: "real list option"
  other_columns :: bool

definition history_empty :: "history \<Rightarrow> bool" where
  "history_empty h \<longleftrightarrow>
     row_count h = 0 \<or> (year_column h = None \<and> value_column h = None \<and> \<not> other_columns h)"

text \<open>
  The predictor reads the clock and the global random generator. Both are arguments of
  the model. The clock is \<open>datetime.now().year\<close> together with the list of (year, month)
  of the month-end timestamps that \<open>pd.date_range\<close> returns for the thirty years before
  now; \<open>noise\<close> is the array that the single call of
  \<open>np.random.normal(..., size=len(df))\<close> returned, which has one entry per date.
\<close>

record clock =
  now_year :: int
  date_range :: "(int \<times> int) list"

definition seasonal_series ::
  "real \<Rightarrow> real \<Rightarrow> real \<Rightarrow> (int \<times> int) list \<Rightarrow> real list \<Rightarrow> real list" where
  "seasonal_series baseline trend seasonal_amplitude dates noise =
     map (\<lambda>((y, m), n).
            baseline + trend * real_of_int (y - Min (set (map fst dates)))
              + seasonal_amplitude * sin (2 * pi * real_of_int m / 12) + n)
         (zip dates noise)"

fun cumsum :: "real \<Rightarrow> real list \<Rightarrow> real list" where
  "cumsum acc [] = []"
| "cumsum acc (x # xs) = (acc + x) # cumsum (acc + x) xs"

text \<open>\<open>QuantumClimatePredictor._generate_simulated_historical_data\<close>: a frame with the
  columns \<open>date\<close>, \<open>year\<close> and \<open>value\<close>.\<close>

definition generate_simulated_historical_data ::
  "string \<Rightarrow> (int \<times> int) list \<Rightarrow> real list \<Rightarrow> history" where
  "generate_simulated_historical_data climate_variable dates noise =
     \<lparr>row_count = length dates,
      year_column = Some (map fst dates),
      value_column = Some
        (if climate_variable = ''temperature'' then seasonal_series 0.3 0.02 0.2 dates noise
         else if climate_variable = ''co2'' then seasonal_series 350 2.0 3.0 dates noise
         else if climate_variable = ''sea_level'' then
           map (\<lambda>((y, m), n).
                  let years_since_start = real_of_int (y - Min (set (map fst dates)))
                  in 0 + 2.0 * years_since_start + 0.5 * 0.05 * years_since_start ^ 2 + n)
               (zip dates noise)
         else if climate_variable = ''ice_extent'' then
           seasonal_series 12.0 (-0.1) 5.0 dates noise
         else cumsum 0 noise),
      other_columns = True\<rparr>"

text \<open>
  \<open>last_year = historical_data["year"].max()\<close> and the mean of the \<open>value\<close> entries
  of that year. A missing column raises KeyError. On a frame without rows pandas answers
  NaN, and \<open>range(last_year + 1, ...)\<close> then raises TypeError.
\<close>

definition last_year_value :: "history \<Rightarrow> py_error + (int \<times> real)" where
  "last_year_value historical_data =
     (case year_column historical_data of
        None \<Rightarrow> Inl KeyError
      | Some ys \<Rightarrow>
          (case value_column historical_data of
             None \<Rightarrow> Inl KeyError
           | Some vs \<Rightarrow>
               if ys = [] then Inl TypeError
               else
                 let last_year = Max (set ys);
                     sel = map snd (filter (\<lambda>(y, v). y = last_year) (zip ys vs))
                 in Inr (last_year, sum_list sel / real (length sel))))"

text \<open>
  The first statement of \<open>_simulate_extreme_events_prediction\<close>:
  \<open>historical_data["year"].max() if "year" in historical_data.columns else
  datetime.now().year - 10\<close>. The \<open>value\<close> column is not read.
\<close>

definition extreme_last_year :: "int \<Rightarrow> history \<Rightarrow> py_error + int" where
  "extreme_last_year current_year historical_data =
     (case year_column historical_data of
        None \<Rightarrow> Inr (current_year - 10)
      | Some ys \<Rightarrow> if ys = [] then Inl TypeError else Inr (Max (set ys)))"

definition mk_row :: "int \<Rightarrow> real \<Rightarrow> real \<Rightarrow> real \<Rightarrow> real \<Rightarrow> row" where
  "mk_row y v lb ub u =
     \<lparr>year = y, val = v, lower_bound = lb, upper_bound = ub, uncertainty = u,
      quantum_enhanced = False, intervention = False\<rparr>"

text \<open>The loop \<open>for i, year in enumerate(range(last_year + 1, last_year + years_to_predict + 1))\<close>.\<close>

definition future_rows :: "int \<Rightarrow> int \<Rightarrow> (nat \<Rightarrow> int \<Rightarrow> row) \<Rightarrow> row list" where
  "future_rows last_year years_to_predict body =
     map (\<lambda>i. body i (last_year + 1 + int i)) [0..<nat years_to_predict]"

definition simulate_temperature_prediction :: "history \<Rightarrow> int \<Rightarrow> string \<Rightarrow> py_error + row list" where
  "simulate_temperature_prediction historical_data years_to_predict scenario =
     (case last_year_value historical_data of
        Inl e \<Rightarrow> Inl e
      | Inr (last_year, last_value) \<Rightarrow>
          let (trend, uncertainty, acceleration) =
                (if scenario = ''low_emissions'' then (0.01, 0.005, 0.0001)
                 else if scenario = ''moderate'' then (0.025, 0.01, 0.0005)
                 else if scenario = ''high_emissions'' then (0.04, 0.02, 0.001)
                 else (0.025, 0.01, 0.0005 :: real))
          in Inr (future_rows last_year years_to_predict (\<lambda>i y.
               let year_uncertainty = uncertainty * sqrt (real (i + 1));
                   value = last_value + (\<Sum>j\<leftarrow>[0..<i + 1]. trend + acceleration * real j)
               in mk_row y value (value - 1.96 * year_uncertainty)
                    (value + 1.96 * year_uncertainty) year_uncertainty)))"

definition simulate_sea_level_prediction :: "history \<Rightarrow> int \<Rightarrow> string \<Rightarrow> py_error + row list" where
  "simulate_sea_level_prediction historical_data years_to_predict scenario =
     (case last_year_value historical_data of
        Inl e \<Rightarrow> Inl e
      | Inr (last_year, last_value) \<Rightarrow>
          let (initial_rate, uncertainty, acceleration) =
                (if scenario = ''low_emissions'' then (3.0, 0.5, 0.02)
                 else if scenario = ''moderate'' then (3.5, 1.0, 0.05)
                 else if scenario = ''high_emissions'' then (4.0, 2.0, 0.1)
                 else (3.5, 1.0, 0.05 :: real))
          in Inr (future_rows last_year years_to_predict (\<lambda>i y.
               let t = real (i + 1);
                   value = last_value + initial_rate * t + 0.5 * acceleration * t ^ 2;
                   year_uncertainty = uncertainty * sqrt t
               in mk_row y value (value - 1.96 * year_uncertainty)
                    (value + 1.96 * year_uncertainty) year_uncertainty)))"

definition simulate_co2_prediction :: "history \<Rightarrow> int \<Rightarrow> string \<Rightarrow> py_error + row list" where
  "simulate_co2_prediction historical_data years_to_predict scenario =
     (case last_year_value historical_data of
        Inl e \<Rightarrow> Inl e
      | Inr (last_year, last_value) \<Rightarrow>
          let (trend, uncertainty, rate_change) =
                (if scenario = ''low_emissions'' then (1.5, 0.3, -0.02)
                 else if scenario = ''moderate'' then (2.5, 0.5, 0.0)
                 else if scenario = ''high_emissions'' then (3.5, 0.8, 0.05)
                 else (2.5, 0.5, 0.0 :: real))
          in Inr (future_rows last_year years_to_predict (\<lambda>i y.
               let t = i + 1;
                   value = last_value + (\<Sum>j\<leftarrow>[0..<t]. trend * (1 + rate_change * real j));
                   year_uncertainty = uncertainty * sqrt (real t)
               in mk_row y value (value - 1.96 * year_uncertainty)
                    (value + 1.96 * year_uncertainty) year_uncertainty)))"

definition simulate_ice_extent_prediction :: "history \<Rightarrow> int \<Rightarrow> string \<Rightarrow> py_error + row list" where
  "simulate_ice_extent_prediction historical_data years_to_predict scenario =
     (case last_year_value historical_data of
        Inl e \<Rightarrow> Inl e
      | Inr (last_year, last_value) \<Rightarrow>
          let (trend, uncertainty, min_extent) =
                (if scenario = ''low_emissions'' then (-0.05, 0.2, 1.0)
                 else if scenario = ''moderate'' then (-0.1, 0.3, 0.5)
                 else if scenario = ''high_emissions'' then (-0.15, 0.5, 0.1)
                 else (-0.1, 0.3, 0.5 :: real))
          in Inr (future_rows last_year years_to_predict (\<lambda>i y.
               let t = real (i + 1);
                   value = max (last_value + trend * t) min_extent;
                   approaching_min =
                     max 0 (1 - (value - min_extent) / (last_value - min_extent));
                   year_uncertainty = uncertainty * sqrt t * (1 - 0.5 * approaching_min)
               in mk_row y value (max (value - 1.96 * year_uncertainty) 0)
                    (value + 1.96 * year_uncertainty) year_uncertainty)))"

definition simulate_extreme_events_prediction ::
  "int \<Rightarrow> history \<Rightarrow> int \<Rightarrow> string \<Rightarrow> py_error + row list" where
  "simulate_extreme_events_prediction current_year historical_data years_to_predict scenario =
     (case extreme_last_year current_year historical_data of
        Inl e \<Rightarrow> Inl e
      | Inr last_year \<Rightarrow>
          let (base_rate, growth_rate, uncertainty_factor) =
                (if scenario = ''low_emissions'' then (10, 0.02, 0.1)
                 else if scenario = ''moderate'' then (12, 0.04, 0.15)
                 else if scenario = ''high_emissions'' then (15, 0.07, 0.2)
                 else (12, 0.04, 0.15 :: real))
          in Inr (future_rows last_year years_to_predict (\<lambda>i y.
               let t = i + 1;
                   expected_events = base_rate * (1 + growth_rate) ^ t;
                   uncertainty = expected_events * uncertainty_factor * sqrt (real t)
               in mk_row y expected_events (max 0 (expected_events - 1.96 * uncertainty))
                    (expected_events + 1.96 * uncertainty) uncertainty)))"

text \<open>\<open>QuantumClimatePredictor._apply_quantum_advantage\<close>\<close>

definition apply_quantum_advantage :: "row list \<Rightarrow> string \<Rightarrow> row list" where
  "apply_quantum_advantage predictions climate_variable =
     (let quantum_reduction_factor = 0.7 in
      map (\<lambda>r.
             let u = uncertainty r * quantum_reduction_factor;
                 lb = val r - 1.96 * u;
                 ub = val r + 1.96 * u
             in r\<lparr>uncertainty := u,
                  lower_bound := (if climate_variable = ''ice_extent'' then max lb 0 else lb),
                  upper_bound := ub,
                  quantum_enhanced := True\<rparr>)
          predictions)"

text \<open>The dict \<open>self.simulation_methods\<close>; only the method for \<open>extreme_events\<close> reads the
  clock.\<close>

definition simulation_methods ::
  "int \<Rightarrow> string \<rightharpoonup> (history \<Rightarrow> int \<Rightarrow> string \<Rightarrow> py_error + row list)" where
  "simulation_methods current_year =
     map_of [(''temperature'', simulate_temperature_prediction),
             (''sea_level'', simulate_sea_level_prediction),
             (''co2'', simulate_co2_prediction),
             (''ice_extent'', simulate_ice_extent_prediction),
             (''extreme_events'', simulate_extreme_events_prediction current_year)]"

text \<open>
  \<open>QuantumClimatePredictor.generate_prediction\<close>. The first argument is the attribute
  \<open>self.quantum_enabled\<close>. An unsupported variable is logged and answered with \<open>None\<close>.
  A prediction without rows is \<open>pd.DataFrame([])\<close>, a frame without columns, and the
  quantum-advantage step raises KeyError when it reads the \<open>uncertainty\<close> column of it.
\<close>

definition generate_prediction ::
  "bool \<Rightarrow> string \<Rightarrow> history option \<Rightarrow> int \<Rightarrow> string \<Rightarrow> clock \<Rightarrow> real list
     \<Rightarrow> py_error + row list option" where
  "generate_prediction quantum_enabled climate_variable historical_data years_to_predict
       scenario clk noise =
     (case simulation_methods (now_year clk) climate_variable of
        None \<Rightarrow> Inr None
      | Some prediction_method \<Rightarrow>
          let historical =
                (case historical_data of
                   None \<Rightarrow>
                     generate_simulated_historical_data climate_variable (date_range clk) noise
                 | Some h \<Rightarrow>
                     if history_empty h
                     then generate_simulated_historical_data climate_variable (date_range clk)
                            noise
                     else h)
          in (case prediction_method historical years_to_predict scenario of
                Inl e \<Rightarrow> Inl e
              | Inr predictions \<Rightarrow>
                  if quantum_enabled then
                    (if predictions = [] then Inl KeyError
                     else Inr (Some (apply_quantum_advantage predictions climate_variable)))
                  else Inr (Some predictions)))"

section \<open>Intervention simulator (utils/climate\_interventions.py)\<close>

text \<open>An entry of the table of \<open>_load_intervention_effects\<close>: its \<open>parameters\<close> (\<open>iv_parameters\<close>) and its
  \<open>effects\<close> (\<open>iv_effects\<close>), both in the order of the source (the \<open>description\<close> text is left out).\<close>

record intervention_info =
  iv_parameters :: "(string \<times> real) list"
  iv_effects :: "(string \<times> effect) list"

definition intervention_effects :: "string \<rightharpoonup> intervention_info" where
  "intervention_effects = map_of
     [(''renewable_energy'',
       \<lparr>iv_parameters = [(''implementation_speed'', 0.5), (''coverage'', 0.8), (''efficiency'', 0.9)],
        iv_effects =
          [(''co2'', \<lparr>factor_type = ''emission_reduction'', immediate_effect = -0.1,
            annual_effect = -0.02, saturation_level = 0.7, delay_years = 2\<rparr>),
           (''temperature'', \<lparr>factor_type = ''trend_reduction'', immediate_effect = 0,
            annual_effect = -0.002, saturation_level = 0.6, delay_years = 10\<rparr>)]\<rparr>),
      (''reforestation'',
       \<lparr>iv_parameters = [(''implementation_speed'', 0.3), (''coverage'', 0.6), (''ecosystem_diversity'', 0.8)],
        iv_effects =
          [(''co2'', \<lparr>factor_type = ''carbon_sequestration'', immediate_effect = -0.02,
            annual_effect = -0.01, saturation_level = 0.3, delay_years = 5\<rparr>),
           (''temperature'', \<lparr>factor_type = ''trend_reduction'', immediate_effect = 0,
            annual_effect = -0.001, saturation_level = 0.2, delay_years = 15\<rparr>)]\<rparr>),
      (''industrial_efficiency'',
       \<lparr>iv_parameters = [(''implementation_speed'', 0.6), (''coverage'', 0.7), (''technology_level'', 0.8)],
        iv_effects =
          [(''co2'', \<lparr>factor_type = ''emission_reduction'', immediate_effect = -0.05,
            annual_effect = -0.01, saturation_level = 0.5, delay_years = 1\<rparr>)]\<rparr>),
      (''carbon_pricing'',
       \<lparr>iv_parameters = [(''price_level'', 0.5), (''coverage'', 0.6), (''enforcement'', 0.7)],
        iv_effects =
          [(''co2'', \<lparr>factor_type = ''emission_reduction'', immediate_effect = -0.03,
            annual_effect = -0.01, saturation_level = 0.4, delay_years = 3\<rparr>)]\<rparr>),
      (''transportation_electrification'',
       \<lparr>iv_parameters = [(''implementation_speed'', 0.4), (''coverage'', 0.8), (''grid_carbon_intensity'', 0.6)],
        iv_effects =
          [(''co2'', \<lparr>factor_type = ''emission_reduction'', immediate_effect = -0.02,
            annual_effect = -0.015, saturation_level = 0.6, delay_years = 4\<rparr>)]\<rparr>),
      (''building_efficiency'',
       \<lparr>iv_parameters = [(''implementation_speed'', 0.3), (''coverage'', 0.7), (''retrofit_depth'', 0.6)],
        iv_effects =
          [(''co2'', \<lparr>factor_type = ''emission_reduction'', immediate_effect = -0.01,
            annual_effect = -0.008, saturation_level = 0.4, delay_years = 2\<rparr>)]\<rparr>),
      (''agricultural_practices'',
       \<lparr>iv_parameters = [(''implementation_speed'', 0.3), (''coverage'', 0.6), (''intensity'', 0.7)],
        iv_effects =
          [(''co2'', \<lparr>factor_type = ''emission_reduction'', immediate_effect = -0.01,
            annual_effect = -0.005, saturation_level = 0.3, delay_years = 5\<rparr>)]\<rparr>),
      (''direct_air_capture'',
       \<lparr>iv_parameters = [(''implementation_speed'', 0.2), (''scale'', 0.3), (''efficiency'', 0.7)],
        iv_effects =
          [(''co2'', \<lparr>factor_type = ''carbon_removal'', immediate_effect = 0,
            annual_effect = -0.01, saturation_level = 0.2, delay_years = 10\<rparr>)]\<rparr>)]"

text \<open>
  \<open>ClimateInterventionSimulator.simulate_intervention\<close>. The predictor is created with
  \<open>quantum_enabled = True\<close>. Every baseline is generated without historical data, so each
  generation reads the clock and draws from the random generator: \<open>draws k\<close> is the
  array returned by the k-th call of \<open>np.random.normal\<close>. \<open>custom_parameters\<close> is a dict
  (the empty map when it is absent). An unknown intervention type is logged and answered
  with \<open>None\<close>.
\<close>

definition primary_result :: "(string \<times> row list) list \<Rightarrow> py_error + row list" where
  "primary_result results =
     (let primary_variable =
            (if ''temperature'' \<in> set (map fst results) then ''temperature'' else ''co2'')
      in case map_of results primary_variable of
           None \<Rightarrow> Inl KeyError
         | Some r \<Rightarrow> Inr r)"

definition simulate_intervention ::
  "string \<Rightarrow> (string \<rightharpoonup> real) \<Rightarrow> int \<Rightarrow> string \<Rightarrow> clock \<Rightarrow> (nat \<Rightarrow> real list)
     \<Rightarrow> py_error + row list option" where
  "simulate_intervention intervention_type custom_parameters years_to_simulate baseline_scenario
       clk draws =
     (case intervention_effects intervention_type of
        None \<Rightarrow> Inr None
      | Some info \<Rightarrow>
          let params = map_of (iv_parameters info) ++ custom_parameters in
          (case for_rows
                  (\<lambda>(k, (variable, eff)).
                     case generate_prediction True variable None years_to_simulate
                            baseline_scenario clk (draws k) of
                       Inl e \<Rightarrow> Inl e
                     | Inr b \<Rightarrow> Inr (variable, eff, b))
                  (enumerate 0 (iv_effects info)) of
             Inl e \<Rightarrow> Inl e
           | Inr baselines \<Rightarrow>
               (case for_rows
                       (\<lambda>(variable, eff, b).
                          case b of
                            None \<Rightarrow> Inl AttributeError
                          | Some baseline \<Rightarrow>
                              (case apply_intervention_effect baseline eff params
                                      years_to_simulate of
                                 Inl e \<Rightarrow> Inl e
                               | Inr r \<Rightarrow> Inr (variable, r)))
                       baselines of
                  Inl e \<Rightarrow> Inl e
                | Inr results \<Rightarrow>
                    (case primary_result results of
                       Inl e \<Rightarrow> Inl e
                     | Inr r \<Rightarrow> Inr (Some r)))))"

section \<open>Scenario integrators (utils/climate\_simulator.py)\<close>

text \<open>
  Python's \<open>round(x, ndigits)\<close> and pandas' \<open>.round(ndigits)\<close> on exact reals: the nearest
  multiple of \<open>10 ^ -ndigits\<close>, a tie going to the even neighbour. (On floats a tie in
  decimal notation need not be a tie of the binary value; that difference is outside the
  model.)
\<close>

definition round_half_even :: "real \<Rightarrow> int" where
  "round_half_even x =
     (let f = \<lfloor>x\<rfloor>; d = x - of_int f
      in if d < 1 / 2 then f else if d > 1 / 2 then f + 1 else if even f then f else f + 1)"

definition py_round :: "nat \<Rightarrow> real \<Rightarrow> real" where
  "py_round ndigits x = of_int (round_half_even (x * 10 ^ ndigits)) / 10 ^ ndigits"

text \<open>
  The parameter dicts. The keys read by both integrators form the parent record; a dict
  that lacks a key is excluded by the type.
\<close>

record params =
  initial_temperature :: real
  climate_sensitivity :: real
  ocean_heat_capacity :: real
  baseline_co2 :: real
  current_co2 :: real

record simple_params = params +
  co2_sensitivity :: real

record advanced_params = params +
  co2_forcing_coefficient :: real
  ocean_mixing_rate :: real
  deep_ocean_temperature :: real
  ice_albedo_feedback :: real
  carbon_cycle_feedback :: real

definition DEFAULT_PARAMS :: simple_params where
  "DEFAULT_PARAMS =
     \<lparr>initial_temperature = 14.0, climate_sensitivity = 0.8, ocean_heat_capacity = 14.0,
      baseline_co2 = 280, current_co2 = 417, co2_sensitivity = 5.35\<rparr>"

definition DEFAULT_ADVANCED_PARAMS :: advanced_params where
  "DEFAULT_ADVANCED_PARAMS =
     \<lparr>initial_temperature = 14.0, climate_sensitivity = 3.0, ocean_heat_capacity = 14.0,
      baseline_co2 = 280, current_co2 = 417, co2_forcing_coefficient = 5.35,
      ocean_mixing_rate = 0.002, deep_ocean_temperature = 6.0, ice_albedo_feedback = 0.01,
      carbon_cycle_feedback = 0.01\<rparr>"

text \<open>\<open>if params is None: params = DEFAULT_PARAMS.copy()\<close>, and the same statement with
  the advanced defaults.\<close>

definition params_or_default :: "simple_params option \<Rightarrow> simple_params" where
  "params_or_default params_opt = (case params_opt of None \<Rightarrow> DEFAULT_PARAMS | Some q \<Rightarrow> q)"

definition advanced_params_or_default :: "advanced_params option \<Rightarrow> advanced_params" where
  "advanced_params_or_default params_opt =
     (case params_opt of None \<Rightarrow> DEFAULT_ADVANCED_PARAMS | Some q \<Rightarrow> q)"

text \<open>An entry of \<open>EMISSION_SCENARIOS\<close> (without its name and description texts).\<close>

record scenario_details =
  annual_increase :: real
  net_zero_year :: "int option"
  negative_year :: "int option"

definition EMISSION_SCENARIOS :: "string \<rightharpoonup> scenario_details" where
  "EMISSION_SCENARIOS = map_of
     [(''business_as_usual'',
         \<lparr>annual_increase = 2.5, net_zero_year = None, negative_year = None\<rparr>),
      (''moderate_mitigation'',
         \<lparr>annual_increase = 1.2, net_zero_year = None, negative_year = None\<rparr>),
      (''strong_mitigation'',
         \<lparr>annual_increase = 0.5, net_zero_year = None, negative_year = None\<rparr>),
      (''net_zero'',
         \<lparr>annual_increase = 1.0, net_zero_year = Some 2050, negative_year = None\<rparr>),
      (''negative_emissions'',
         \<lparr>annual_increase = 0.8, net_zero_year = None, negative_year = Some 2070\<rparr>)]"

text \<open>\<open>if scenario not in EMISSION_SCENARIOS: scenario = 'business_as_usual'\<close>\<close>

definition resolve_scenario :: "string \<Rightarrow> string" where
  "resolve_scenario scenario =
     (if scenario \<in> dom EMISSION_SCENARIOS then scenario else ''business_as_usual'')"

text \<open>
  The annual CO2 increase of loop index \<open>i\<close>, whose year is \<open>current_year + i\<close>; the two
  integrators compute it with the same statements.
\<close>

definition annual_increase_at ::
  "string \<Rightarrow> scenario_details \<Rightarrow> int \<Rightarrow> int \<Rightarrow> py_error + real" where
  "annual_increase_at scenario sd current_year i =
     (let yr = current_year + i in
      if scenario = ''net_zero'' then
        (case net_zero_year sd of
           None \<Rightarrow> Inl KeyError
         | Some nzy \<Rightarrow>
             if yr < nzy then
               (let years_to_net_zero = nzy - current_year in
                if years_to_net_zero = 0 then Inl ZeroDivisionError
                else Inr (annual_increase sd *
                            (1 - real_of_int i / real_of_int years_to_net_zero)))
             else Inr 0)
      else if scenario = ''negative_emissions'' then
        (case negative_year sd of
           None \<Rightarrow> Inl KeyError
         | Some ny \<Rightarrow>
             if yr < ny then
               (let years_to_negative = ny - current_year in
                if years_to_negative = 0 then Inl ZeroDivisionError
                else Inr (annual_increase sd *
                            (1 - 1.5 * real_of_int i / real_of_int years_to_negative)))
             else Inr (- 0.5))
      else Inr (annual_increase sd))"

text \<open>The CO2 loop of \<open>run_climate_simulation\<close>: the running level is not rounded, the
  recorded concentration is.\<close>

fun co2_concentrations ::
  "(int \<Rightarrow> py_error + real) \<Rightarrow> real \<Rightarrow> int list \<Rightarrow> py_error + real list" where
  "co2_concentrations inc co2_level [] = Inr []"
| "co2_concentrations inc co2_level (i # rest) =
     (case inc i of
        Inl e \<Rightarrow> Inl e
      | Inr a \<Rightarrow>
          (case co2_concentrations inc (co2_level + a) rest of
             Inl e \<Rightarrow> Inl e
           | Inr cs \<Rightarrow> Inr (py_round 1 (co2_level + a) # cs)))"

text \<open>The energy-balance loop: the running temperature is not rounded, the recorded one
  is. \<open>ln\<close> stands for \<open>np.log\<close>, which it is on positive arguments only.\<close>

fun temperature_loop :: "simple_params \<Rightarrow> real \<Rightarrow> real list \<Rightarrow> real list" where
  "temperature_loop p temp [] = []"
| "temperature_loop p temp (c # cs) =
     (let forcing = co2_sensitivity p * ln (c / baseline_co2 p);
          temp_change = forcing * climate_sensitivity p / ocean_heat_capacity p;
          temp' = temp + temp_change
      in py_round 2 temp' # temperature_loop p temp' cs)"

definition simple_sea_levels :: "simple_params \<Rightarrow> real list \<Rightarrow> real list" where
  "simple_sea_levels p temps =
     map (\<lambda>(i, temp).
            let thermal_component = 0.3 * (temp - initial_temperature p);
                year_factor = real i / 10;
                temp_anomaly = temp - initial_temperature p;
                ice_melt_component = 0.1 * year_factor * temp_anomaly * temp_anomaly
            in py_round 1 (0 + thermal_component + ice_melt_component))
         (enumerate 0 temps)"

definition simple_ice_extent :: "simple_params \<Rightarrow> real list \<Rightarrow> real list" where
  "simple_ice_extent p temps =
     map (\<lambda>temp.
            let temp_anomaly = temp - initial_temperature p;
                new_ice = 10.5 - temp_anomaly * 0.8
            in py_round 2 (max 0 new_ice))
         temps"

definition simple_extreme_weather :: "simple_params \<Rightarrow> real list \<Rightarrow> real list" where
  "simple_extreme_weather p temps =
     map (\<lambda>temp.
            let temp_anomaly = temp - initial_temperature p;
                weather_index = 20 + temp_anomaly * 15
            in py_round 1 (min 100 (max 0 weather_index)))
         temps"

text \<open>One row of a simulation DataFrame; \<open>deep_ocean\<close> is the column
  \<open>deep_ocean_temperature\<close>, which only the advanced integrator writes.\<close>

record sim_row =
  sim_year :: int
  co2 :: real
  temperature :: real
  deep_ocean :: "real option"
  sea_level_rise :: real
  arctic_ice :: real
  extreme_weather_index :: real

definition sim_rows ::
  "int list \<Rightarrow> real list \<Rightarrow> real list \<Rightarrow> real option list \<Rightarrow> real list \<Rightarrow> real list
     \<Rightarrow> real list \<Rightarrow> sim_row list" where
  "sim_rows ys cs ts ds ss ices ws =
     map (\<lambda>(y, c, t, d, s, a, w).
            \<lparr>sim_year = y, co2 = c, temperature = t, deep_ocean = d, sea_level_rise = s,
             arctic_ice = a, extreme_weather_index = w\<rparr>)
         (zip ys (zip cs (zip ts (zip ds (zip ss (zip ices ws))))))"

text \<open>
  \<open>run_climate_simulation\<close>. \<open>current_year\<close> is \<open>datetime.now().year\<close>. The year column
  is \<open>range(current_year, current_year + years)\<close>. \<open>co2 / params['baseline_co2']\<close> divides
  Python numbers and raises on a zero divisor.
\<close>

definition run_climate_simulation ::
  "int \<Rightarrow> string \<Rightarrow> int \<Rightarrow> simple_params option \<Rightarrow> py_error + sim_row list" where
  "run_climate_simulation current_year scenario years params_opt =
     (let p = params_or_default params_opt;
          scenario = resolve_scenario scenario
      in case EMISSION_SCENARIOS scenario of
           None \<Rightarrow> Inl KeyError
         | Some scenario_details \<Rightarrow>
             let simulation_years = [current_year..current_year + years - 1] in
             (case co2_concentrations (annual_increase_at scenario scenario_details current_year)
                     (current_co2 p) [0..years - 1] of
                Inl e \<Rightarrow> Inl e
              | Inr co2s \<Rightarrow>
                  if co2s \<noteq> [] \<and> baseline_co2 p = 0 then Inl ZeroDivisionError
                  else
                    let temps = temperature_loop p (initial_temperature p) co2s
                    in Inr (sim_rows simulation_years co2s temps (map (\<lambda>_. None) temps)
                              (simple_sea_levels p temps) (simple_ice_extent p temps)
                              (simple_extreme_weather p temps))))"

text \<open>The CO2 table of \<open>run_advanced_climate_simulation\<close>: the levels after the initial
  one, not rounded.\<close>

fun co2_levels ::
  "(int \<Rightarrow> py_error + real) \<Rightarrow> real \<Rightarrow> int list \<Rightarrow> py_error + real list" where
  "co2_levels inc prev [] = Inr []"
| "co2_levels inc prev (i # rest) =
     (case inc i of
        Inl e \<Rightarrow> Inl e
      | Inr a \<Rightarrow>
          (case co2_levels inc (prev + a) rest of
             Inl e \<Rightarrow> Inl e
           | Inr cs \<Rightarrow> Inr ((prev + a) # cs)))"

text \<open>The right-hand side \<open>climate_system(y, t, co2_levels, params)\<close> handed to the
  solver; the table always holds at least the initial level.\<close>

definition climate_system ::
  "real list \<Rightarrow> advanced_params \<Rightarrow> real \<times> real \<Rightarrow> real \<Rightarrow> py_error + real \<times> real" where
  "climate_system levels p y t =
     (let (T_s, T_d) = y;
          idx = \<lfloor>t\<rfloor>;
          c = (if idx \<ge> int (length levels) then last levels
               else if idx < 0 then hd levels
               else levels ! nat idx)
      in if baseline_co2 p = 0 then Inl ZeroDivisionError
         else
           let forcing = co2_forcing_coefficient p * ln (c / baseline_co2 p);
               temp_anomaly = T_s - initial_temperature p;
               ice_feedback = ice_albedo_feedback p * temp_anomaly;
               total_forcing = forcing + ice_feedback;
               dTs_dt = (total_forcing - ocean_mixing_rate p * (T_s - T_d))
                          / ocean_heat_capacity p;
               dTd_dt = ocean_mixing_rate p * (T_s - T_d) / (5 * ocean_heat_capacity p)
           in Inr (dTs_dt, dTd_dt))"

text \<open>The sea-level loop of the advanced integrator: each step adds to the last recorded
  (rounded) level. \<open>powr\<close> stands for \<open>**\<close>, which it is on a nonnegative anomaly only.\<close>

fun advanced_sea_levels :: "real \<Rightarrow> nat \<Rightarrow> real \<Rightarrow> real list \<Rightarrow> real list" where
  "advanced_sea_levels t0 i prev [] = []"
| "advanced_sea_levels t0 i prev (temp # rest) =
     (let temp_anomaly = temp - t0;
          thermal_component = 0.3 * temp_anomaly;
          ice_melt_rate = 0.05 * (real i / 10) * (temp_anomaly powr 1.5)
            + (if temp_anomaly > 1.5 then 0.1 * (temp_anomaly - 1.5) ^ 2 else 0);
          sea_level = (if i = 0 then 0 else prev + thermal_component + ice_melt_rate)
      in py_round 1 sea_level # advanced_sea_levels t0 (Suc i) (py_round 1 sea_level) rest)"

definition advanced_ice_extent :: "real \<Rightarrow> real list \<Rightarrow> real list" where
  "advanced_ice_extent t0 temps =
     map (\<lambda>temp.
            let temp_anomaly = temp - t0;
                ice_loss = (if temp_anomaly < 1.0 then temp_anomaly * 0.7
                            else if temp_anomaly < 2.0 then 0.7 + (temp_anomaly - 1.0) * 1.2
                            else 0.7 + 1.2 + (temp_anomaly - 2.0) * 1.8);
                remaining_ice = max 0 (10.5 - ice_loss);
                remaining_ice = (if remaining_ice < 1.0 then remaining_ice * 0.8
                                 else remaining_ice)
            in py_round 2 remaining_ice)
         temps"

definition advanced_extreme_weather :: "real \<Rightarrow> real list \<Rightarrow> real list" where
  "advanced_extreme_weather t0 temps =
     map (\<lambda>temp.
            let temp_anomaly = temp - t0;
                weather_index = (if temp_anomaly < 1.0 then 20 + temp_anomaly * 10
                                 else if temp_anomaly < 2.0 then 30 + (temp_anomaly - 1.0) * 20
                                 else 50 + (temp_anomaly - 2.0) * 25)
            in py_round 1 (min 100 (max 0 weather_index)))
         temps"

text \<open>
  \<open>run_advanced_climate_simulation\<close>. The integration is done by \<open>scipy.integrate.odeint\<close>,
  which is not part of the repository: it is the argument \<open>odeint\<close>, taking the right-hand
  side, the initial state and the time grid \<open>np.linspace(0, years, years + 1)\<close> and
  returning one state per grid point or failing. The DataFrame constructor raises
  ValueError when its columns differ in length. A negative horizon ends in an exception
  before a frame is built (numpy, scipy or pandas raises, depending on the value); it is
  modelled as ValueError.
\<close>

definition run_advanced_climate_simulation ::
  "((real \<times> real \<Rightarrow> real \<Rightarrow> py_error + real \<times> real) \<Rightarrow> real \<times> real \<Rightarrow> real list
      \<Rightarrow> py_error + (real \<times> real) list)
   \<Rightarrow> int \<Rightarrow> string \<Rightarrow> int \<Rightarrow> advanced_params option \<Rightarrow> py_error + sim_row list" where
  "run_advanced_climate_simulation odeint current_year scenario years params_opt =
     (let p = advanced_params_or_default params_opt;
          scenario = resolve_scenario scenario
      in case EMISSION_SCENARIOS scenario of
           None \<Rightarrow> Inl KeyError
         | Some scenario_details \<Rightarrow>
             if years < 0 then Inl ValueError
             else
               let simulation_years = [current_year..current_year + years];
                   t = map real_of_int [0..years]
               in (case co2_levels (annual_increase_at scenario scenario_details current_year)
                          (current_co2 p) [1..years] of
                     Inl e \<Rightarrow> Inl e
                   | Inr rest \<Rightarrow>
                       let levels = current_co2 p # rest in
                       (case odeint (climate_system levels p)
                               (initial_temperature p, deep_ocean_temperature p) t of
                          Inl e \<Rightarrow> Inl e
                        | Inr y \<Rightarrow>
                            if length y \<noteq> length simulation_years then Inl ValueError
                            else
                              let temps = map fst y;
                                  t0 = initial_temperature p
                              in Inr (sim_rows simulation_years levels
                                        (map (py_round 2) temps)
                                        (map (\<lambda>yd. Some (py_round 2 (snd yd))) y)
                                        (advanced_sea_levels t0 0 0 temps)
                                        (advanced_ice_extent t0 temps)
                                        (advanced_extreme_weather t0 temps)))))"

section \<open>Auxiliary closed forms\<close>

text \<open>The annual increase that \<open>annual_increase_at\<close> computes from the five entries of
  \<open>EMISSION_SCENARIOS\<close>, written out per scenario; the correspondence is proved below.\<close>

definition scenario_increase :: "string \<Rightarrow> int \<Rightarrow> int \<Rightarrow> real" where
  "scenario_increase sc cy i =
     (if sc = ''net_zero'' then
        (if cy + i < 2050 then 1.0 * (1 - real_of_int i / real_of_int (2050 - cy)) else 0)
      else if sc = ''negative_emissions'' then
        (if cy + i < 2070 then 0.8 * (1 - 1.5 * real_of_int i / real_of_int (2070 - cy))
         else - 0.5)
      else if sc = ''moderate_mitigation'' then 1.2
      else if sc = ''strong_mitigation'' then 0.5
      else 2.5)"

text \<open>The CO2 loop of \<open>run_climate_simulation\<close> for an increase that cannot fail.\<close>

fun co2_pure :: "(int \<Rightarrow> real) \<Rightarrow> real \<Rightarrow> int list \<Rightarrow> real list" where
  "co2_pure g l [] = []"
| "co2_pure g l (j # js) = py_round 1 (l + g j) # co2_pure g (l + g j) js"

text \<open>The temperature change that one recorded concentration contributes.\<close>

definition temp_change_of :: "simple_params \<Rightarrow> real \<Rightarrow> real" where
  "temp_change_of p c =
     co2_sensitivity p * ln (c / baseline_co2 p) * climate_sensitivity p / ocean_heat_capacity p"

text \<open>A stand-in solver that repeats the initial state at every grid point.\<close>

definition constant_solver ::
  "(real \<times> real \<Rightarrow> real \<Rightarrow> py_error + real \<times> real) \<Rightarrow> real \<times> real \<Rightarrow> real list
     \<Rightarrow> py_error + (real \<times> real) list" where
  "constant_solver f y0 ts = Inr (map (\<lambda>_. y0) ts)"

text \<open>The mean, over the dates of the last year, of the noise-free part of a seasonal
  series.\<close>

definition seasonal_mean :: "real \<Rightarrow> real \<Rightarrow> real \<Rightarrow> (int \<times> int) list \<Rightarrow> real" where
  "seasonal_mean baseline trend seasonal_amplitude dates =
     (let last = filter (\<lambda>d. fst d = Max (set (map fst dates))) dates
      in sum_list (map (\<lambda>(y, m). baseline + trend * real_of_int (y - Min (set (map fst dates)))
                          + seasonal_amplitude * sin (2 * pi * real_of_int m / 12)) last)
           / real (length last))"

section \<open>Coupled-equation simulator (utils/simulation/climate\_simulator.py)\<close>

text \<open>
  \<open>AdvancedClimateSimulator.create_emissions_scenario\<close>: the emissions in GtC as a
  function of elapsed time.
\<close>

definition create_emissions_scenario :: "string \<Rightarrow> real \<Rightarrow> real" where
  "create_emissions_scenario scenario_type =
     (let current_emissions = 10.0 in
      if scenario_type = ''business_as_usual'' then
        (\<lambda>t. current_emissions * (1 + 0.02 * t))
      else if scenario_type = ''moderate_mitigation'' then
        (\<lambda>t. if t < 30 then current_emissions * (1 + 0.01 * t - 0.001 * t ^ 2)
             else current_emissions * 0.7)
      else if scenario_type = ''strong_mitigation'' then
        (\<lambda>t. current_emissions * exp (- 0.05 * t))
      else (\<lambda>t. current_emissions))"

text \<open>
  The result frame as \<open>analyze_tipping_points\<close> reads it: the \<open>year\<close> column (a float
  column, the clock's year plus the solver's time) and the columns \<open>temperature\<close> and
  \<open>ice_extent\<close>, either of which may be absent. All columns of a frame have the same
  length.
\<close>

record sim_frame =
  frame_year :: "real list"
  frame_temperature :: "real list option"
  frame_ice_extent :: "real list option"

text \<open>A value of the report: a year or a label.\<close>

datatype report_value = Year int | Label string

text \<open>Python's \<open>int(x)\<close> on a float: truncation towards zero.\<close>

definition py_int :: "real \<Rightarrow> int" where
  "py_int x = (if 0 \<le> x then \<lfloor>x\<rfloor> else \<lceil>x\<rceil>)"

text \<open>The row tests \<open>results[col] >= threshold\<close> and \<open>results[col] <= threshold\<close>.\<close>

definition at_least :: "real \<Rightarrow> real \<Rightarrow> bool" where
  "at_least threshold v \<longleftrightarrow> v \<ge> threshold"

definition at_most :: "real \<Rightarrow> real \<Rightarrow> bool" where
  "at_most threshold v \<longleftrightarrow> v \<le> threshold"

text \<open>\<open>sel = results[test(results[col])]\<close> followed by \<open>int(sel.iloc[0]['year'])\<close> when
  \<open>sel\<close> is not empty.\<close>

definition first_crossing :: "(real \<Rightarrow> bool) \<Rightarrow> real list \<Rightarrow> real list \<Rightarrow> int option" where
  "first_crossing test col years =
     (case filter (\<lambda>(v, y). test v) (zip col years) of
        [] \<Rightarrow> None
      | (v, y) # _ \<Rightarrow> Some (py_int y))"

definition record_crossing ::
  "(string \<rightharpoonup> report_value) \<Rightarrow> int option \<Rightarrow> string \<Rightarrow> string \<Rightarrow> string
     \<Rightarrow> (string \<rightharpoonup> report_value)" where
  "record_crossing tipping_points crossing year_key label_key label =
     (case crossing of
        None \<Rightarrow> tipping_points
      | Some y \<Rightarrow> tipping_points(year_key \<mapsto> Year y, label_key \<mapsto> Label label))"

text \<open>\<open>AdvancedClimateSimulator.analyze_tipping_points\<close>\<close>

definition analyze_tipping_points :: "sim_frame \<Rightarrow> (string \<rightharpoonup> report_value)" where
  "analyze_tipping_points results =
     (let tipping_points = Map.empty;
          tipping_points =
            (case frame_temperature results of
               None \<Rightarrow> tipping_points
             | Some temps \<Rightarrow>
                 let tp = record_crossing tipping_points
                            (first_crossing (at_least 1.5) temps (frame_year results))
                            ''1.5C_threshold_year'' ''1.5C_threshold_risk'' ''Moderate'';
                     tp = record_crossing tp
                            (first_crossing (at_least 2.0) temps (frame_year results))
                            ''2.0C_threshold_year'' ''2.0C_threshold_risk'' ''High'';
                     tp = record_crossing tp
                            (first_crossing (at_least 3.0) temps (frame_year results))
                            ''3.0C_threshold_year'' ''3.0C_threshold_risk'' ''Severe''
                 in tp);
          tipping_points =
            (case frame_ice_extent results of
               None \<Rightarrow> tipping_points
             | Some ice \<Rightarrow>
                 record_crossing tipping_points
                   (first_crossing (at_most 1.0) ice (frame_year results))
                   ''ice_free_summer_year'' ''ice_free_impact''
                   ''Major ecosystem disruption, albedo feedback acceleration'');
          tipping_points =
            (case frame_temperature results of
               None \<Rightarrow> tipping_points
             | Some temps \<Rightarrow>
                 record_crossing tipping_points
                   (first_crossing (at_least 2.5) temps (frame_year results))
                   ''permafrost_methane_year'' ''permafrost_impact''
                   ''Accelerated warming due to methane release'')
      in tipping_points)"

section \<open>Quantum-enhanced predictor (utils/quantum/quantum\_predictor.py)\<close>

text \<open>
  The state of a \<open>QuantumEnhancedPredictor\<close> that the uncertainty generator reads: the
  attribute \<open>quantum_advantage\<close> and the \<open>base_uncertainty\<close> entries of
  \<open>self.climate_variables\<close>, whose keys are the supported variables.
\<close>

record predictor =
  quantum_advantage :: real
  base_uncertainties :: "string \<rightharpoonup> real"

text \<open>The constructor \<open>QuantumEnhancedPredictor(quantum_advantage_factor)\<close>.\<close>

definition new_predictor :: "real \<Rightarrow> predictor" where
  "new_predictor quantum_advantage_factor =
     \<lparr>quantum_advantage = quantum_advantage_factor,
      base_uncertainties = map_of
        [(''temperature'', 0.15), (''sea_level'', 15.0), (''co2'', 2.5), (''ice_extent'', 0.4)]\<rparr>"

text \<open>A basis pattern sampled on \<open>np.linspace(0, 1, 100)\<close>.\<close>

definition pattern_array :: "(real \<Rightarrow> real) \<Rightarrow> real list" where
  "pattern_array f = map (\<lambda>k. f (real k / 99)) [0..<100]"

text \<open>The \<open>trend_patterns\<close> entries built by the four \<open>_create_..._patterns\<close> methods, in
  the order of their dicts.\<close>

definition trend_patterns :: "string \<rightharpoonup> (string \<times> real list) list" where
  "trend_patterns = map_of
     [(''temperature'',
         [(''linear'', pattern_array (\<lambda>t. t * 2.5)),
          (''accelerating'', pattern_array (\<lambda>t. 2.0 * exp (1.5 * t) - 2.0)),
          (''stabilizing'', pattern_array (\<lambda>t. 3.0 / (1 + exp (- 6 * (t - 0.5))))),
          (''oscillating'', pattern_array (\<lambda>t. t * 2.0 + 0.3 * sin (t * 20)))]),
      (''sea_level'',
         [(''linear'', pattern_array (\<lambda>t. t * 300)),
          (''accelerating'', pattern_array (\<lambda>t. 200 * t ^ 2)),
          (''exponential'', pattern_array (\<lambda>t. 100 * (exp (2 * t) - 1)))]),
      (''co2'',
         [(''linear'', pattern_array (\<lambda>t. 415 + t * 150)),
          (''stabilizing'', pattern_array (\<lambda>t. 415 + 200 * (1 - exp (- 3 * t)))),
          (''accelerating'', pattern_array (\<lambda>t. 415 + 100 * t + 200 * t ^ 2))]),
      (''ice_extent'',
         [(''linear'', pattern_array (\<lambda>t. 10.5 - 8 * t)),
          (''tipping'', pattern_array (\<lambda>t. 10.5 - 5 * t - 10 * (max 0 (t - 0.5)) ^ 2)),
          (''threshold'', pattern_array (\<lambda>t. 10.5 - 2 * t - 12 * max 0 (t - 0.7)))])]"

text \<open>The weights chosen by scenario and variable. For one of the three named scenarios
  and a variable outside the four, no branch assigns \<open>weights\<close> and its use raises
  UnboundLocalError.\<close>

definition scenario_weights ::
  "string \<Rightarrow> string \<Rightarrow> (string \<times> real list) list \<Rightarrow> py_error + (string \<times> real) list" where
  "scenario_weights scenario variable patterns =
     (if scenario = ''low_emissions'' then
        (if variable = ''temperature'' then
           Inr [(''linear'', 0.3), (''accelerating'', 0.1), (''stabilizing'', 0.5),
                (''oscillating'', 0.1)]
         else if variable = ''co2'' then
           Inr [(''linear'', 0.3), (''stabilizing'', 0.6), (''accelerating'', 0.1)]
         else if variable = ''sea_level'' then
           Inr [(''linear'', 0.6), (''accelerating'', 0.3), (''exponential'', 0.1)]
         else if variable = ''ice_extent'' then
           Inr [(''linear'', 0.7), (''tipping'', 0.2), (''threshold'', 0.1)]
         else Inl UnboundLocalError)
      else if scenario = ''moderate'' then
        (if variable = ''temperature'' then
           Inr [(''linear'', 0.4), (''accelerating'', 0.3), (''stabilizing'', 0.2),
                (''oscillating'', 0.1)]
         else if variable = ''co2'' then
           Inr [(''linear'', 0.5), (''stabilizing'', 0.3), (''accelerating'', 0.2)]
         else if variable = ''sea_level'' then
           Inr [(''linear'', 0.4), (''accelerating'', 0.4), (''exponential'', 0.2)]
         else if variable = ''ice_extent'' then
           Inr [(''linear'', 0.4), (''tipping'', 0.4), (''threshold'', 0.2)]
         else Inl UnboundLocalError)
      else if scenario = ''high_emissions'' then
        (if variable = ''temperature'' then
           Inr [(''linear'', 0.2), (''accelerating'', 0.6), (''stabilizing'', 0.1),
                (''oscillating'', 0.1)]
         else if variable = ''co2'' then
           Inr [(''linear'', 0.3), (''stabilizing'', 0.1), (''accelerating'', 0.6)]
         else if variable = ''sea_level'' then
           Inr [(''linear'', 0.2), (''accelerating'', 0.5), (''exponential'', 0.3)]
         else if variable = ''ice_extent'' then
           Inr [(''linear'', 0.1), (''tipping'', 0.7), (''threshold'', 0.2)]
         else Inl UnboundLocalError)
      else Inr (map (\<lambda>(k, arr). (k, 1.0 / real (length patterns))) patterns))"

text \<open>\<open>QuantumEnhancedPredictor._quantum_pattern_superposition\<close>\<close>

definition quantum_pattern_superposition :: "string \<Rightarrow> string \<Rightarrow> real \<Rightarrow> py_error + real" where
  "quantum_pattern_superposition variable scenario time_fraction =
     (case trend_patterns variable of
        None \<Rightarrow> Inl KeyError
      | Some patterns \<Rightarrow>
          let idx = py_int (time_fraction * 99) in
          (case scenario_weights scenario variable patterns of
             Inl e \<Rightarrow> Inl e
           | Inr weights \<Rightarrow>
               let total = sum_list (map snd weights) in
               if weights \<noteq> [] \<and> total = 0 then Inl ZeroDivisionError
               else
                 let weights = map (\<lambda>(k, v). (k, v / total)) weights in
                 (case for_rows
                         (\<lambda>(pattern, arr).
                            case map_of weights pattern of
                              None \<Rightarrow> Inl KeyError
                            | Some w \<Rightarrow>
                                (case np_index arr idx of
                                   Inl e \<Rightarrow> Inl e
                                 | Inr x \<Rightarrow> Inr (w * x)))
                         patterns of
                    Inl e \<Rightarrow> Inl e
                  | Inr terms \<Rightarrow> Inr (sum_list terms))))"

text \<open>\<open>QuantumEnhancedPredictor._quantum_uncertainty_reduction\<close>: the returned array is
  \<open>base_uncertainty * np.power(np.arange(time_steps) + 1, quantum_factor)\<close>; the bases of
  the power are the positive integers, where \<open>powr\<close> is the power of the source.\<close>

definition quantum_uncertainty_reduction :: "predictor \<Rightarrow> string \<Rightarrow> int \<Rightarrow> py_error + real list" where
  "quantum_uncertainty_reduction pr variable time_steps =
     (case base_uncertainties pr variable of
        None \<Rightarrow> Inl KeyError
      | Some base_uncertainty \<Rightarrow>
          let quantum_factor = 1.0 - quantum_advantage pr * 0.5
          in Inr (map (\<lambda>k. base_uncertainty * real (k + 1) powr quantum_factor)
                    [0..<nat time_steps]))"

definition get_current_value :: "string \<Rightarrow> real" where
  "get_current_value variable =
     (case map_of [(''temperature'', 1.2), (''co2'', 417), (''sea_level'', 0),
                   (''ice_extent'', 10.5)] variable of
        None \<Rightarrow> 0
      | Some v \<Rightarrow> v)"

text \<open>The value of loop index \<open>i\<close> in \<open>generate_prediction\<close>.\<close>

definition blended_value :: "string \<Rightarrow> string \<Rightarrow> int \<Rightarrow> nat \<Rightarrow> py_error + real" where
  "blended_value climate_variable scenario years_to_predict i =
     (let start_value = get_current_value climate_variable;
          time_fraction =
            (if years_to_predict > 0 then real i / real_of_int years_to_predict else 0)
      in if i = 0 then Inr start_value
         else
           (case quantum_pattern_superposition climate_variable scenario time_fraction of
              Inl e \<Rightarrow> Inl e
            | Inr pattern_value \<Rightarrow>
                let blend_factor = min 1.0 (real i / 10)
                in Inr (start_value * (1 - blend_factor) + pattern_value * blend_factor)))"

text \<open>The body of the loop \<open>for i, year in enumerate(years)\<close> of \<open>generate_prediction\<close>.\<close>

definition prediction_row ::
  "string \<Rightarrow> string \<Rightarrow> int \<Rightarrow> real list \<Rightarrow> nat \<times> int \<Rightarrow> py_error + row" where
  "prediction_row climate_variable scenario years_to_predict uncertainties =
     (\<lambda>(i, yr).
        case blended_value climate_variable scenario years_to_predict i of
          Inl e \<Rightarrow> Inl e
        | Inr value \<Rightarrow>
            (case np_index uncertainties (int i) of
               Inl e \<Rightarrow> Inl e
             | Inr u \<Rightarrow> Inr (mk_row yr value (value - 1.96 * u) (value + 1.96 * u) u)))"

text \<open>\<open>QuantumEnhancedPredictor.generate_prediction\<close>; \<open>current_year\<close> is
  \<open>datetime.now().year\<close>. An unsupported variable is printed and answered with \<open>None\<close>.\<close>

definition enhanced_generate_prediction ::
  "predictor \<Rightarrow> int \<Rightarrow> string \<Rightarrow> int \<Rightarrow> string \<Rightarrow> py_error + row list option" where
  "enhanced_generate_prediction pr current_year climate_variable years_to_predict scenario =
     (if climate_variable \<notin> dom (base_uncertainties pr) then Inr None
      else
        let years = [current_year..current_year + years_to_predict] in
        (case quantum_uncertainty_reduction pr climate_variable (years_to_predict + 1) of
           Inl e \<Rightarrow> Inl e
         | Inr uncertainties \<Rightarrow>
             (case for_rows
                     (prediction_row climate_variable scenario years_to_predict uncertainties)
                     (enumerate 0 years) of
                Inl e \<Rightarrow> Inl e
              | Inr rows \<Rightarrow> Inr (Some rows))))"

section \<open>Concrete inputs used to exercise the model\<close>

text \<open>A three-year baseline whose first and last values coincide, so that its linear
  trend is zero.\<close>

definition flat_trend_baseline :: "row list" where
  "flat_trend_baseline =
     [\<lparr>year = 2025, val = 1, lower_bound = 0.5, upper_bound = 1.5, uncertainty = 0.25,
        quantum_enhanced = True, intervention = False\<rparr>,
      \<lparr>year = 2026, val = 100, lower_bound = 99, upper_bound = 101, uncertainty = 0.5,
        quantum_enhanced = True, intervention = False\<rparr>,
      \<lparr>year = 2027, val = 1, lower_bound = 0, upper_bound = 2, uncertainty = 0.5,
        quantum_enhanced = True, intervention = False\<rparr>]"

text \<open>The temperature effect of \<open>renewable_energy\<close>, with the delay shortened to one year
  and to zero years.\<close>

definition trend_effect_delay1 :: effect where
  "trend_effect_delay1 =
     \<lparr>factor_type = ''trend_reduction'', immediate_effect = 0, annual_effect = -0.002,
      saturation_level = 0.6, delay_years = 1\<rparr>"

definition trend_effect_delay0 :: effect where
  "trend_effect_delay0 =
     \<lparr>factor_type = ''trend_reduction'', immediate_effect = 0, annual_effect = -0.002,
      saturation_level = 0.6, delay_years = 0\<rparr>"

definition overlay_delay1_result :: "row list" where
  "overlay_delay1_result =
     [\<lparr>year = 2025, val = 1, lower_bound = 0.5, upper_bound = 1.5, uncertainty = 0.25,
        quantum_enhanced = True, intervention = True\<rparr>,
      \<lparr>year = 2026, val = 100, lower_bound = 99.02, upper_bound = 100.98, uncertainty = 0.5,
        quantum_enhanced = True, intervention = True\<rparr>,
      \<lparr>year = 2027, val = 100, lower_bound = 99.02, upper_bound = 100.98, uncertainty = 0.5,
        quantum_enhanced = True, intervention = True\<rparr>]"

definition overlay_delay0_result :: "row list" where
  "overlay_delay0_result =
     [\<lparr>year = 2025, val = 1, lower_bound = 0.51, upper_bound = 1.49, uncertainty = 0.25,
        quantum_enhanced = True, intervention = True\<rparr>,
      \<lparr>year = 2026, val = 1, lower_bound = 0.02, upper_bound = 1.98, uncertainty = 0.5,
        quantum_enhanced = True, intervention = True\<rparr>,
      \<lparr>year = 2027, val = 1, lower_bound = 0.02, upper_bound = 1.98, uncertainty = 0.5,
        quantum_enhanced = True, intervention = True\<rparr>]"

text \<open>The CO2 effect of \<open>renewable_energy\<close> with the delay shortened to one year.\<close>

definition level_effect_delay1 :: effect where
  "level_effect_delay1 =
     \<lparr>factor_type = ''emission_reduction'', immediate_effect = -0.1, annual_effect = -0.02,
      saturation_level = 0.7, delay_years = 1\<rparr>"

text \<open>A single prediction row, and a supplied history of one row.\<close>

definition one_prediction :: "row list" where
  "one_prediction =
     [\<lparr>year = 2030, val = 2, lower_bound = 0, upper_bound = 4, uncertainty = 1,
        quantum_enhanced = False, intervention = False\<rparr>]"

definition one_observation :: history where
  "one_observation =
     \<lparr>row_count = 1, year_column = Some [2024], value_column = Some [420],
      other_columns = False\<rparr>"

text \<open>A supplied history of three rows that has a \<open>value\<close> column and no \<open>year\<close>
  column.\<close>

definition yearless_history :: history where
  "yearless_history =
     \<lparr>row_count = 3, year_column = None, value_column = Some [9, 11, 12],
      other_columns = False\<rparr>"

text \<open>The synthetic trajectory of the tipping-point test.\<close>

definition synthetic_frame :: sim_frame where
  "synthetic_frame =
     \<lparr>frame_year = [2025, 2026, 2027, 2028],
      frame_temperature = Some [1.0, 1.3, 1.6, 2.1],
      frame_ice_extent = None\<rparr>"

definition cool_frame :: sim_frame where
  "cool_frame =
     \<lparr>frame_year = [2025, 2026, 2027],
      frame_temperature = Some [1.0, 1.2, 1.4],
      frame_ice_extent = None\<rparr>"

text \<open>The (year, month) pairs of the 360 month ends from November 1996 to October 2026:
  the dates that \<open>pd.date_range(start, end, freq='M')\<close> yields for the thirty years
  before 3 November 2026.\<close>

definition month_ends :: "(int \<times> int) list" where
  "month_ends =
     [(1996, 11), (1996, 12)]
     @ concat (map (\<lambda>y. map (\<lambda>m. (y, m)) [1..12]) [1997..2025])
     @ map (\<lambda>m. (2026, m)) [1..10]"

text \<open>The clock on 3 November 2026, and the clock one year later.\<close>

definition clock_2026 :: clock where
  "clock_2026 = \<lparr>now_year = 2026, date_range = month_ends\<rparr>"

definition clock_2027 :: clock where
  "clock_2027 =
     \<lparr>now_year = 2027, date_range = map (\<lambda>(y, m). (y + 1, m)) month_ends\<rparr>"

section \<open>Properties of the intervention overlay\<close>

lemma for_rows_length: "for_rows f xs = Inr ys \<Longrightarrow> length ys = length xs"
  by (induction xs arbitrary: ys) (auto split: sum.splits)

lemma for_rows_nth:
  "for_rows f xs = Inr ys \<Longrightarrow> i < length xs \<Longrightarrow> f (xs ! i) = Inr (ys ! i)"
proof (induction xs arbitrary: ys i)
  case Nil
  then show ?case by simp
next
  case (Cons x xs)
  then show ?case by (cases i) (auto split: sum.splits)
qed

lemma for_rows_total:
  "(\<And>x. x \<in> set xs \<Longrightarrow> \<exists>y. f x = Inr y) \<Longrightarrow> \<exists>ys. for_rows f xs = Inr ys"
proof (induction xs)
  case Nil
  then show ?case by simp
next
  case (Cons x xs)
  then obtain y where "f x = Inr y" by auto
  moreover from Cons obtain ys where "for_rows f xs = Inr ys" by auto
  ultimately show ?case by simp
qed

text \<open>On a frame whose years ascend, the smallest year is the year of the first row.\<close>

lemma year_min_first:
  assumes "rs \<noteq> []" and "sorted (map year rs)"
  shows "year_min rs = year (hd rs)"
proof -
  obtain r rest where rs: "rs = r # rest" using assms(1) by (cases rs) auto
  have "\<forall>y \<in> set (map year rest). year r \<le> y" using assms(2) by (simp add: rs)
  then have "Min (insert (year r) (set (map year rest))) = year r"
    by (intro Min_eqI) auto
  then show ?thesis by (simp add: year_min_def rs)
qed

lemma level_row_before:
  "year r - ymin < delay_years e \<Longrightarrow> level_row e curve ymin r = Inr r"
  by (simp add: level_row_def)

lemma trend_row_before:
  "year r - year_min baseline < delay_years e \<Longrightarrow> trend_row e curve baseline bt r = Inr r"
  by (simp add: trend_row_def)

lemma overlay_rows_length:
  "overlay_rows baseline e curve = Inr rs \<Longrightarrow> length rs = length baseline"
  by (auto simp: overlay_rows_def split: if_splits dest: for_rows_length)

lemma overlay_rows_before:
  assumes "overlay_rows baseline e curve = Inr rs" and "i < length baseline"
    and "year (baseline ! i) - year_min baseline < delay_years e"
  shows "rs ! i = baseline ! i"
  using assms
  by (auto simp: overlay_rows_def level_row_before trend_row_before
      split: if_splits dest!: for_rows_nth[where i = i])

lemma overlay_result:
  assumes "apply_intervention_effect baseline e parameters years = Inr res"
  obtains curve rs where "overlay_rows baseline e curve = Inr rs"
    and "res = map (\<lambda>r. r\<lparr>intervention := True\<rparr>) rs"
  using assms unfolding apply_intervention_effect_def Let_def
  by (auto split: if_splits sum.splits)

lemma overlay_delay1_eval:
  "apply_intervention_effect flat_trend_baseline trend_effect_delay1 Map.empty 2 =
     Inr overlay_delay1_result"
  by (simp add: flat_trend_baseline_def trend_effect_delay1_def overlay_delay1_result_def
      apply_intervention_effect_def overlay_rows_def level_factor_types_def
      implementation_curve_def trend_row_def year_min_def first_affected_value_def baseline_trend_def
      np_index_def set_value_def Let_def)

lemma overlay_delay0_eval:
  "apply_intervention_effect flat_trend_baseline trend_effect_delay0 Map.empty 2 =
     Inr overlay_delay0_result"
  by (simp add: flat_trend_baseline_def trend_effect_delay0_def overlay_delay0_result_def
      apply_intervention_effect_def overlay_rows_def level_factor_types_def
      implementation_curve_def trend_row_def year_min_def first_affected_value_def baseline_trend_def
      np_index_def set_value_def Let_def)

lemma overlay_level_returns:
  "\<exists>res. apply_intervention_effect flat_trend_baseline level_effect_delay1 Map.empty 2 = Inr res"
  by (simp add: flat_trend_baseline_def level_effect_delay1_def apply_intervention_effect_def
      overlay_rows_def level_factor_types_def implementation_curve_def level_row_def
      year_min_def np_index_def Let_def)

text \<open>
  Claim C2 (delay invariant). Whenever the overlay returns a trajectory, it has as many
  rows as the baseline, and every row whose year lies fewer than \<open>delay_years\<close> years after
  the first (smallest) year of the frame carries the baseline's year, value, lower bound
  and upper bound unchanged. This holds for every factor type.
\<close>

theorem delay_invariant:
  assumes "apply_intervention_effect baseline e parameters years = Inr res"
  shows "length res = length baseline \<and>
         (\<forall>i < length baseline. year (baseline ! i) - year_min baseline < delay_years e \<longrightarrow>
            year (res ! i) = year (baseline ! i) \<and> val (res ! i) = val (baseline ! i) \<and>
            lower_bound (res ! i) = lower_bound (baseline ! i) \<and>
            upper_bound (res ! i) = upper_bound (baseline ! i))"
proof -
  from assms obtain curve rs where rs: "overlay_rows baseline e curve = Inr rs"
    and res: "res = map (\<lambda>r. r\<lparr>intervention := True\<rparr>) rs"
    by (rule overlay_result)
  have len: "length rs = length baseline"
    using rs by (rule overlay_rows_length)
  have "rs ! i = baseline ! i"
    if "i < length baseline" "year (baseline ! i) - year_min baseline < delay_years e" for i
    using overlay_rows_before[OF rs that] .
  with len show ?thesis by (simp add: res)
qed

theorem delay_invariant_witness:
  "apply_intervention_effect flat_trend_baseline trend_effect_delay1 Map.empty 2 =
     Inr overlay_delay1_result \<and>
   year (flat_trend_baseline ! 0) - year_min flat_trend_baseline < delay_years trend_effect_delay1 \<and>
   length overlay_delay1_result = length flat_trend_baseline \<and>
   year (overlay_delay1_result ! 0) = year (flat_trend_baseline ! 0) \<and>
   val (overlay_delay1_result ! 0) = val (flat_trend_baseline ! 0) \<and>
   lower_bound (overlay_delay1_result ! 0) = lower_bound (flat_trend_baseline ! 0) \<and>
   upper_bound (overlay_delay1_result ! 0) = upper_bound (flat_trend_baseline ! 0)"
proof -
  have early: "year (flat_trend_baseline ! 0) - year_min flat_trend_baseline
      < delay_years trend_effect_delay1"
    by (simp add: flat_trend_baseline_def trend_effect_delay1_def year_min_def)
  have pos: "0 < length flat_trend_baseline"
    by (simp add: flat_trend_baseline_def)
  from delay_invariant[OF overlay_delay1_eval] early pos overlay_delay1_eval
  show ?thesis by blast
qed

lemma clamp_effect_bound: "0 \<le> sat \<Longrightarrow> \<bar>clamp_effect sat e\<bar> \<le> sat"
  by (simp add: clamp_effect_def)

lemma level_row_change:
  assumes "level_row e curve ymin r = Inr r'" and "0 \<le> saturation_level e"
  shows "\<bar>val r' - val r\<bar> \<le> saturation_level e * \<bar>val r\<bar>"
proof (cases "year r - ymin \<ge> delay_years e")
  case False
  with assms show ?thesis by (simp add: level_row_def)
next
  case True
  with assms(1) obtain c where
    r': "r' = set_value r (val r * (1 + clamp_effect (saturation_level e)
        ((immediate_effect e + annual_effect e * real_of_int (year r - ymin - delay_years e)) * c)))"
    by (auto simp: level_row_def Let_def split: sum.splits)
  define ce where "ce = clamp_effect (saturation_level e)
        ((immediate_effect e + annual_effect e * real_of_int (year r - ymin - delay_years e)) * c)"
  have "val r' - val r = val r * ce"
    by (simp add: r' set_value_def ce_def algebra_simps)
  then have "\<bar>val r' - val r\<bar> = \<bar>ce\<bar> * \<bar>val r\<bar>"
    by (simp add: abs_mult)
  also have "\<dots> \<le> saturation_level e * \<bar>val r\<bar>"
    using clamp_effect_bound[OF assms(2), of "(immediate_effect e + annual_effect e * real_of_int (year r - ymin - delay_years e)) * c"]
    unfolding ce_def by (intro mult_right_mono) auto
  finally show ?thesis .
qed

lemma trend_row_change:
  assumes "trend_row e curve baseline bt r = Inr r'" and "0 \<le> saturation_level e"
    and "delay_years e \<le> year r - year_min baseline"
  shows "\<exists>fav. first_affected_value baseline (delay_years e) = Inr fav \<and>
           \<bar>val r' - (fav + bt * real_of_int (year r - year_min baseline - delay_years e))\<bar>
             \<le> saturation_level e * \<bar>bt * real_of_int (year r - year_min baseline - delay_years e)\<bar>"
proof -
  define t where "t = year r - year_min baseline - delay_years e"
  have t0: "0 \<le> t" using assms(3) by (simp add: t_def)
  have tt: "(if t > 0 then t else 0) = t" using t0 by simp
  obtain c where c: "np_index curve (year r - year_min baseline) = Inr c"
    using assms(1,3) by (cases "np_index curve (year r - year_min baseline)") (simp_all add: trend_row_def)
  obtain fav where fav: "first_affected_value baseline (delay_years e) = Inr fav"
    using assms(1,3) c
    by (cases "first_affected_value baseline (delay_years e)") (simp_all add: trend_row_def Let_def)
  define te where "te = clamp_effect (saturation_level e)
        ((immediate_effect e + annual_effect e * real_of_int t) * c)"
  have "trend_row e curve baseline bt r = Inr (set_value r (fav + bt * (1 + te) * real_of_int t))"
    using assms(3) c fav tt unfolding trend_row_def Let_def te_def t_def by simp
  with assms(1) have r': "r' = set_value r (fav + bt * (1 + te) * real_of_int t)" by simp
  have "val r' - (fav + bt * real_of_int t) = te * (bt * real_of_int t)"
    unfolding r' by (simp add: set_value_def algebra_simps)
  then have "\<bar>val r' - (fav + bt * real_of_int t)\<bar> = \<bar>te\<bar> * \<bar>bt * real_of_int t\<bar>"
    by (simp only: abs_mult)
  also have "\<dots> \<le> saturation_level e * \<bar>bt * real_of_int t\<bar>"
    using clamp_effect_bound[OF assms(2), of "(immediate_effect e + annual_effect e * real_of_int t) * c"]
    unfolding te_def by (intro mult_right_mono) auto
  finally show ?thesis using fav unfolding t_def by blast
qed

text \<open>
  Claim C1 fails for \<open>trend_reduction\<close>: on a baseline with values 1, 100, 1 the baseline
  trend is 0, every affected row is rewritten to the first affected value 1, and the row
  of 2026 moves from 100 to 1, a relative change of 0.99 against a saturation level of 0.6.
\<close>

theorem saturation_trend_reduction_counterexample:
  "apply_intervention_effect flat_trend_baseline trend_effect_delay0 Map.empty 2 =
     Inr overlay_delay0_result \<and>
   val (flat_trend_baseline ! 1) \<noteq> 0 \<and>
   saturation_level trend_effect_delay0 <
     \<bar>val (overlay_delay0_result ! 1) - val (flat_trend_baseline ! 1)\<bar> /
       \<bar>val (flat_trend_baseline ! 1)\<bar>"
  using overlay_delay0_eval
  by (simp add: flat_trend_baseline_def trend_effect_delay0_def overlay_delay0_result_def)

text \<open>
  Claim C1, amended. Let the overlay return a trajectory for an effect whose saturation
  level is not negative. For the level-scaling factor types (\<open>emission_reduction\<close>,
  \<open>carbon_sequestration\<close>, \<open>carbon_removal\<close>) the relative change of every row with a
  nonzero baseline value is at most the saturation level, whatever the elapsed time. For
  \<open>trend_reduction\<close> the saturation level bounds the change of the trend instead: a row at
  or after the delay deviates from the straight line through the first affected value
  with the baseline's slope by at most the saturation level times that line's rise.
\<close>

theorem saturation_bound_by_factor_type:
  assumes "apply_intervention_effect baseline e parameters years = Inr res"
    and "0 \<le> saturation_level e" and "i < length baseline"
  shows "(factor_type e \<in> level_factor_types \<longrightarrow> val (baseline ! i) \<noteq> 0 \<longrightarrow>
            \<bar>val (res ! i) - val (baseline ! i)\<bar> / \<bar>val (baseline ! i)\<bar> \<le> saturation_level e) \<and>
         (factor_type e = ''trend_reduction'' \<longrightarrow>
            delay_years e \<le> year (baseline ! i) - year_min baseline \<longrightarrow>
            (\<exists>fav. first_affected_value baseline (delay_years e) = Inr fav \<and>
               \<bar>val (res ! i) - (fav + baseline_trend baseline *
                    real_of_int (year (baseline ! i) - year_min baseline - delay_years e))\<bar>
               \<le> saturation_level e * \<bar>baseline_trend baseline *
                    real_of_int (year (baseline ! i) - year_min baseline - delay_years e)\<bar>))"
proof -
  from assms(1) obtain curve rs where rs: "overlay_rows baseline e curve = Inr rs"
    and res: "res = map (\<lambda>r. r\<lparr>intervention := True\<rparr>) rs"
    by (rule overlay_result)
  have len: "length rs = length baseline"
    using rs by (rule overlay_rows_length)
  have vres: "val (res ! i) = val (rs ! i)"
    using assms(3) len by (simp add: res)
  have lev: "\<bar>val (rs ! i) - val (baseline ! i)\<bar> / \<bar>val (baseline ! i)\<bar> \<le> saturation_level e"
    if ft: "factor_type e \<in> level_factor_types" and nz: "val (baseline ! i) \<noteq> 0"
  proof -
    from rs ft have "for_rows (level_row e curve (year_min baseline)) baseline = Inr rs"
      by (simp add: overlay_rows_def)
    from for_rows_nth[OF this assms(3)]
    have "\<bar>val (rs ! i) - val (baseline ! i)\<bar> \<le> saturation_level e * \<bar>val (baseline ! i)\<bar>"
      using assms(2) by (rule level_row_change)
    then show ?thesis using nz by (simp add: pos_divide_le_eq)
  qed
  have tr: "\<exists>fav. first_affected_value baseline (delay_years e) = Inr fav \<and>
               \<bar>val (rs ! i) - (fav + baseline_trend baseline *
                    real_of_int (year (baseline ! i) - year_min baseline - delay_years e))\<bar>
               \<le> saturation_level e * \<bar>baseline_trend baseline *
                    real_of_int (year (baseline ! i) - year_min baseline - delay_years e)\<bar>"
    if ft: "factor_type e = ''trend_reduction''"
      and d: "delay_years e \<le> year (baseline ! i) - year_min baseline"
  proof -
    from rs ft have "for_rows (trend_row e curve baseline (baseline_trend baseline)) baseline = Inr rs"
      by (auto simp: overlay_rows_def level_factor_types_def split: if_splits)
    from for_rows_nth[OF this assms(3)]
    show ?thesis using assms(2) d by (rule trend_row_change)
  qed
  show ?thesis using lev tr by (simp add: vres)
qed

theorem saturation_bound_by_factor_type_witness:
  "\<exists>res. apply_intervention_effect flat_trend_baseline level_effect_delay1 Map.empty 2 = Inr res \<and>
     0 \<le> saturation_level level_effect_delay1 \<and> 1 < length flat_trend_baseline \<and>
     factor_type level_effect_delay1 \<in> level_factor_types \<and> val (flat_trend_baseline ! 1) \<noteq> 0 \<and>
     \<bar>val (res ! 1) - val (flat_trend_baseline ! 1)\<bar> / \<bar>val (flat_trend_baseline ! 1)\<bar>
       \<le> saturation_level level_effect_delay1"
proof -
  from overlay_level_returns obtain res where
    res: "apply_intervention_effect flat_trend_baseline level_effect_delay1 Map.empty 2 = Inr res"
    by blast
  have sat: "0 \<le> saturation_level level_effect_delay1"
    by (simp add: level_effect_delay1_def)
  have len: "1 < length flat_trend_baseline"
    by (simp add: flat_trend_baseline_def)
  have ft: "factor_type level_effect_delay1 \<in> level_factor_types"
    by (simp add: level_effect_delay1_def level_factor_types_def)
  have nz: "val (flat_trend_baseline ! 1) \<noteq> 0"
    by (simp add: flat_trend_baseline_def)
  from saturation_bound_by_factor_type[OF res sat len] ft nz res sat len
  show ?thesis by blast
qed

section \<open>Properties of the baseline predictor\<close>

text \<open>
  Claim C10 (frame property of the quantum-advantage step). The step keeps the number of
  rows, and in every row it keeps the value (and the year), multiplies the uncertainty by
  0.7, and sets the bounds to the value plus and minus 1.96 times the reduced uncertainty,
  the lower bound being clipped at 0 when the variable is \<open>ice_extent\<close>.
\<close>

theorem quantum_advantage_frame:
  "length (apply_quantum_advantage predictions v) = length predictions \<and>
   (\<forall>i < length predictions.
      let r = predictions ! i; q = apply_quantum_advantage predictions v ! i in
        val q = val r \<and> year q = year r \<and>
        uncertainty q = 0.7 * uncertainty r \<and>
        upper_bound q = val r + 1.96 * (0.7 * uncertainty r) \<and>
        lower_bound q = (if v = ''ice_extent'' then max (val r - 1.96 * (0.7 * uncertainty r)) 0
                         else val r - 1.96 * (0.7 * uncertainty r)))"
  by (simp add: apply_quantum_advantage_def Let_def)

theorem quantum_advantage_frame_witness:
  "0 < length one_prediction \<and>
   val (apply_quantum_advantage one_prediction ''ice_extent'' ! 0) = val (one_prediction ! 0) \<and>
   uncertainty (apply_quantum_advantage one_prediction ''ice_extent'' ! 0) = 0.7 \<and>
   upper_bound (apply_quantum_advantage one_prediction ''ice_extent'' ! 0) = 3.372 \<and>
   lower_bound (apply_quantum_advantage one_prediction ''ice_extent'' ! 0) = 0.628"
  using quantum_advantage_frame[of one_prediction "''ice_extent''"]
  by (simp add: one_prediction_def Let_def)

lemma month_ends_length: "length month_ends = 360"
  by (simp add: month_ends_def length_concat o_def sum_list_triv)

lemma month_ends_nonempty: "month_ends \<noteq> []"
  by (simp add: month_ends_def)

lemma clock_2026_dates:
  "date_range clock_2026 \<noteq> []" "length (date_range clock_2026) = 360"
  by (simp_all add: clock_2026_def month_ends_nonempty month_ends_length)

lemma mean_shift:
  assumes "xs \<noteq> []"
  shows "sum_list (map (\<lambda>d. F d + c) xs) / real (length xs)
       = sum_list (map F xs) / real (length xs) + (c::real)"
proof -
  have "sum_list (map (\<lambda>d. F d + c) xs) = sum_list (map F xs) + real (length xs) * c"
    by (simp add: sum_list_addf sum_list_triv)
  moreover have "real (length xs) \<noteq> 0" using assms by simp
  ultimately show ?thesis by (simp add: field_simps)
qed

lemma seasonal_series_constant_noise:
  "seasonal_series b t a dates (replicate (length dates) c) =
     map (\<lambda>(y, m). (b + t * real_of_int (y - Min (set (map fst dates)))
               + a * sin (2 * pi * real_of_int m / 12)) + c) dates"
  by (simp add: seasonal_series_def zip_replicate2 case_prod_unfold)

lemma last_year_value_constant_noise:
  assumes "dates \<noteq> []"
  shows "last_year_value
           \<lparr>row_count = n, year_column = Some (map fst dates),
            value_column = Some (seasonal_series b t a dates (replicate (length dates) c)),
            other_columns = oc\<rparr> =
     Inr (Max (set (map fst dates)), seasonal_mean b t a dates + c)"
proof -
  let ?F = "\<lambda>(y, m). b + t * real_of_int (y - Min (set (map fst dates)))
               + a * sin (2 * pi * real_of_int m / 12)"
  let ?vs = "map (\<lambda>d. ?F d + c) dates"
  let ?ly = "Max (set (map fst dates))"
  let ?last = "filter (\<lambda>d. fst d = ?ly) dates"
  have vs: "seasonal_series b t a dates (replicate (length dates) c) = ?vs"
    by (simp add: seasonal_series_constant_noise case_prod_unfold)
  have "?ly \<in> set (map fst dates)"
    using assms by (intro Max_in) simp_all
  then obtain d where "d \<in> set dates" "fst d = ?ly" by auto
  then have ne: "?last \<noteq> []" by (auto simp: filter_empty_conv)
  have z: "zip (map fst dates) ?vs = map (\<lambda>d. (fst d, ?F d + c)) dates"
    by (simp add: zip_map_map zip_same_conv_map)
  have sel: "map snd (filter (\<lambda>(y, v). y = ?ly) (zip (map fst dates) ?vs))
      = map (\<lambda>d. ?F d + c) ?last"
    unfolding z by (simp add: filter_map o_def case_prod_unfold)
  have ys: "map fst dates \<noteq> []" using assms by simp
  have len: "length (filter (\<lambda>(y, v). y = ?ly) (zip (map fst dates) ?vs)) = length ?last"
    using arg_cong[OF sel, of length] by (simp only: length_map)
  have "last_year_value \<lparr>row_count = n, year_column = Some (map fst dates),
          value_column = Some ?vs, other_columns = oc\<rparr>
      = Inr (?ly, sum_list (map (\<lambda>d. ?F d + c) ?last) / real (length ?last))"
    unfolding last_year_value_def Let_def using ys
    by (simp only: history.simps option.case sel len if_False length_map)
  also have "sum_list (map (\<lambda>d. ?F d + c) ?last) / real (length ?last)
      = sum_list (map ?F ?last) / real (length ?last) + c"
    by (rule mean_shift[OF ne])
  also have "sum_list (map ?F ?last) / real (length ?last) = seasonal_mean b t a dates"
    by (simp add: seasonal_mean_def Let_def)
  finally show ?thesis unfolding vs .
qed

lemma co2_prediction_of_noise:
  assumes "date_range clk \<noteq> []"
  shows "generate_prediction True ''co2'' None 1 ''moderate'' clk
           (replicate (length (date_range clk)) c) =
     Inr (Some [\<lparr>year = Max (set (map fst (date_range clk))) + 1,
                 val = seasonal_mean 350 2 3 (date_range clk) + c + 2.5,
                 lower_bound = seasonal_mean 350 2 3 (date_range clk) + c + 2.5 - 1.96 * (0.5 * 0.7),
                 upper_bound = seasonal_mean 350 2 3 (date_range clk) + c + 2.5 + 1.96 * (0.5 * 0.7),
                 uncertainty = 0.5 * 0.7, quantum_enhanced = True, intervention = False\<rparr>])"
  by (simp add: generate_prediction_def simulation_methods_def simulate_co2_prediction_def
      generate_simulated_historical_data_def last_year_value_constant_noise[OF assms]
      future_rows_def mk_row_def apply_quantum_advantage_def Let_def)

lemma temperature_intervention_of_noise:
  assumes "date_range clk \<noteq> []"
  shows "simulate_intervention ''renewable_energy'' Map.empty 1 ''moderate'' clk
       (\<lambda>k. replicate (length (date_range clk)) c) =
     Inr (Some [\<lparr>year = Max (set (map fst (date_range clk))) + 1,
                 val = seasonal_mean 0.3 0.02 0.2 (date_range clk) + c + 0.025,
                 lower_bound = seasonal_mean 0.3 0.02 0.2 (date_range clk) + c + 0.025 - 1.96 * (0.01 * 0.7),
                 upper_bound = seasonal_mean 0.3 0.02 0.2 (date_range clk) + c + 0.025 + 1.96 * (0.01 * 0.7),
                 uncertainty = 0.01 * 0.7, quantum_enhanced = True, intervention = True\<rparr>])"
  by (simp add: simulate_intervention_def intervention_effects_def enumerate_eq_zip
      generate_prediction_def simulation_methods_def simulate_co2_prediction_def
      simulate_temperature_prediction_def primary_result_def
      generate_simulated_historical_data_def last_year_value_constant_noise[OF assms]
      future_rows_def mk_row_def apply_quantum_advantage_def Let_def
      apply_intervention_effect_def overlay_rows_def level_factor_types_def
      implementation_curve_def level_row_def trend_row_def year_min_def
      first_affected_value_def baseline_trend_def np_index_def set_value_def)

lemma simulation_methods_clock:
  assumes "v \<noteq> ''extreme_events''"
  shows "simulation_methods cy v = simulation_methods cy' v"
  using assms by (simp add: simulation_methods_def)

lemma simulation_methods_extreme:
  "simulation_methods cy ''extreme_events'' = Some (simulate_extreme_events_prediction cy)"
  by (simp add: simulation_methods_def)

lemma extreme_last_year_clock:
  assumes "year_column h \<noteq> None"
  shows "extreme_last_year cy h = extreme_last_year cy' h"
  using assms by (auto simp: extreme_last_year_def)

lemma extreme_events_clock:
  assumes "year_column h \<noteq> None"
  shows "simulate_extreme_events_prediction cy h years scenario =
         simulate_extreme_events_prediction cy' h years scenario"
  by (simp only: simulate_extreme_events_prediction_def
      extreme_last_year_clock[OF assms, of cy cy'])

lemma generate_prediction_history:
  assumes "\<not> history_empty h"
  shows "generate_prediction q v (Some h) years scenario clk noise =
     (case simulation_methods (now_year clk) v of
        None \<Rightarrow> Inr None
      | Some m \<Rightarrow>
          (case m h years scenario of
             Inl e \<Rightarrow> Inl e
           | Inr predictions \<Rightarrow>
               if q then (if predictions = [] then Inl KeyError
                          else Inr (Some (apply_quantum_advantage predictions v)))
               else Inr (Some predictions)))"
  using assms by (simp add: generate_prediction_def Let_def split: option.splits)

text \<open>
  The one read of the clock outside the synthetic history: for \<open>extreme_events\<close> and a
  supplied history that has no \<open>year\<close> column, the first predicted year is
  \<open>datetime.now().year - 9\<close>, so the same call made in 2026 and in 2027 returns different
  frames.
\<close>

lemma extreme_events_reads_clock:
  "generate_prediction True ''extreme_events'' (Some yearless_history) 1 ''moderate''
       clock_2026 (replicate 360 0)
     \<noteq> generate_prediction True ''extreme_events'' (Some yearless_history) 1 ''moderate''
       clock_2027 (replicate 360 0)"
  by (simp add: generate_prediction_def simulation_methods_def
      simulate_extreme_events_prediction_def extreme_last_year_def yearless_history_def
      history_empty_def clock_2026_def clock_2027_def future_rows_def mk_row_def
      apply_quantum_advantage_def Let_def)

text \<open>
  Claim C9 fails when no historical data is supplied: the synthetic history adds
  \<open>np.random.normal\<close> noise, the mean of its last year carries the noise into every
  predicted value, and two runs with the same arguments at the same time differ when the
  generator's draws differ (here: all draws 0 against all draws 1, which moves every
  value by 1). The intervention simulator always generates its baselines that way.
\<close>

theorem determinism_counterexample:
  "generate_prediction True ''co2'' None 1 ''moderate'' clock_2026 (replicate 360 0)
     \<noteq> generate_prediction True ''co2'' None 1 ''moderate'' clock_2026 (replicate 360 1) \<and>
   simulate_intervention ''renewable_energy'' Map.empty 1 ''moderate'' clock_2026
       (\<lambda>k. replicate 360 0)
     \<noteq> simulate_intervention ''renewable_energy'' Map.empty 1 ''moderate'' clock_2026
       (\<lambda>k. replicate 360 1)"
  using co2_prediction_of_noise[OF clock_2026_dates(1), of 0]
        co2_prediction_of_noise[OF clock_2026_dates(1), of 1]
        temperature_intervention_of_noise[OF clock_2026_dates(1), of 0]
        temperature_intervention_of_noise[OF clock_2026_dates(1), of 1]
  by (simp add: clock_2026_dates(2))

text \<open>
  Claim C9, amended. When the caller supplies historical data with at least one row, two
  runs of \<open>generate_prediction\<close> with the same variable, data, horizon and scenario return
  the same result (the same frame, \<open>None\<close>, or the same exception) whatever the random
  generator draws and whatever dates the clock gives to the synthetic history, as long as
  the calendar year is the same. They return the same result at any two times, the
  calendar year included, unless the variable is \<open>extreme_events\<close> and the supplied data
  has no \<open>year\<close> column: that method then starts from \<open>datetime.now().year - 10\<close>.
\<close>

theorem determinism_given_history:
  assumes "\<not> history_empty h"
  shows "generate_prediction q v (Some h) years scenario clk noise =
           generate_prediction q v (Some h) years scenario
             (clk\<lparr>date_range := dates'\<rparr>) noise' \<and>
         (v \<noteq> ''extreme_events'' \<or> year_column h \<noteq> None \<longrightarrow>
            generate_prediction q v (Some h) years scenario clk noise =
              generate_prediction q v (Some h) years scenario clk' noise')"
proof (intro conjI impI)
  show "generate_prediction q v (Some h) years scenario clk noise =
           generate_prediction q v (Some h) years scenario (clk\<lparr>date_range := dates'\<rparr>) noise'"
    by (simp add: generate_prediction_history[OF assms])
next
  assume a: "v \<noteq> ''extreme_events'' \<or> year_column h \<noteq> None"
  show "generate_prediction q v (Some h) years scenario clk noise =
              generate_prediction q v (Some h) years scenario clk' noise'"
  proof (cases "v = ''extreme_events''")
    case False
    then show ?thesis
      by (simp add: generate_prediction_history[OF assms]
          simulation_methods_clock[OF False, of "now_year clk" "now_year clk'"])
  next
    case True
    with a have "year_column h \<noteq> None" by simp
    from extreme_events_clock[OF this, of "now_year clk" years scenario "now_year clk'"]
    show ?thesis
      by (simp add: generate_prediction_history[OF assms] True simulation_methods_extreme)
  qed
qed

theorem determinism_given_history_witness:
  "\<not> history_empty one_observation \<and> year_column one_observation \<noteq> None \<and>
   generate_prediction True ''extreme_events'' (Some one_observation) 3 ''moderate'' clock_2026
       (replicate 360 0) =
   generate_prediction True ''extreme_events'' (Some one_observation) 3 ''moderate'' clock_2027
       (replicate 360 1) \<and>
   generate_prediction True ''co2'' (Some one_observation) 3 ''moderate'' clock_2026
       (replicate 360 0) =
   generate_prediction True ''co2'' (Some one_observation) 3 ''moderate''
       (clock_2026\<lparr>date_range := []\<rparr>) (replicate 360 1)"
proof -
  have ne: "\<not> history_empty one_observation"
    by (simp add: one_observation_def history_empty_def)
  have yc: "year_column one_observation \<noteq> None"
    by (simp add: one_observation_def)
  from determinism_given_history[OF ne, of True "''extreme_events''" 3 "''moderate''"
      clock_2026 "replicate 360 0" _ "replicate 360 1" clock_2027]
    determinism_given_history[OF ne, of True "''co2''" 3 "''moderate''"
      clock_2026 "replicate 360 0" "[]" "replicate 360 1"]
    ne yc show ?thesis by blast
qed

section \<open>Properties of rounding\<close>

lemma round_half_even_error: "\<bar>of_int (round_half_even x) - x\<bar> \<le> 1 / 2"
  unfolding round_half_even_def Let_def by (auto; linarith)

lemma round_half_even_of_int: "round_half_even (of_int k) = k"
  by (simp add: round_half_even_def)

lemma round_half_even_mono:
  assumes "x \<le> y" shows "round_half_even x \<le> round_half_even y"
proof (cases "\<lfloor>x\<rfloor> = \<lfloor>y\<rfloor>")
  case True
  then show ?thesis using assms
    unfolding round_half_even_def Let_def by (auto; linarith)
next
  case False
  with assms have "\<lfloor>x\<rfloor> < \<lfloor>y\<rfloor>" by (simp add: floor_mono le_neq_trans)
  then have "\<lfloor>x\<rfloor> + 1 \<le> \<lfloor>y\<rfloor>" by simp
  moreover have "round_half_even x \<le> \<lfloor>x\<rfloor> + 1"
    unfolding round_half_even_def Let_def by auto
  moreover have "\<lfloor>y\<rfloor> \<le> round_half_even y"
    unfolding round_half_even_def Let_def by auto
  ultimately show ?thesis by linarith
qed

lemma py_round_error: "\<bar>py_round n x - x\<bar> \<le> (1 / 2) / 10 ^ n"
proof -
  have "\<bar>py_round n x - x\<bar> = \<bar>of_int (round_half_even (x * 10 ^ n)) - x * 10 ^ n\<bar> / 10 ^ n"
    by (simp add: py_round_def field_simps abs_divide)
  also have "\<dots> \<le> (1 / 2) / 10 ^ n"
    by (intro divide_right_mono round_half_even_error) simp
  finally show ?thesis .
qed

lemma py_round_mono: "x \<le> y \<Longrightarrow> py_round n x \<le> py_round n y"
  unfolding py_round_def
  by (intro divide_right_mono) (simp_all add: round_half_even_mono)

lemma py_round_zero: "py_round n 0 = 0"
  using round_half_even_of_int[of 0] by (simp add: py_round_def)

lemma py_round_nonneg: "0 \<le> x \<Longrightarrow> 0 \<le> py_round n x"
  using py_round_mono[of 0 x n] by (simp add: py_round_zero)

lemma py_round_nonpos: "x \<le> 0 \<Longrightarrow> py_round n x \<le> 0"
  using py_round_mono[of x 0 n] by (simp add: py_round_zero)

lemma py_round_strict:
  assumes "y + 1 / 10 ^ n < x" shows "py_round n y < py_round n x"
proof -
  have "\<bar>py_round n x - x\<bar> \<le> (1 / 2) / 10 ^ n" "\<bar>py_round n y - y\<bar> \<le> (1 / 2) / 10 ^ n"
    by (rule py_round_error)+
  moreover have "(1 / 2) / 10 ^ n + (1 / 2) / 10 ^ n = 1 / (10::real) ^ n" by simp
  ultimately show ?thesis using assms by linarith
qed


section \<open>Properties of the scenario integrators\<close>

lemma resolve_scenario_known:
  "resolve_scenario s \<in> {''business_as_usual'', ''moderate_mitigation'', ''strong_mitigation'',
      ''net_zero'', ''negative_emissions''}"
  by (auto simp: resolve_scenario_def EMISSION_SCENARIOS_def split: if_splits)

lemma resolve_scenario_unknown:
  "s \<notin> dom EMISSION_SCENARIOS \<Longrightarrow> resolve_scenario s = ''business_as_usual''"
  by (simp add: resolve_scenario_def)

lemma resolve_scenario_idem: "resolve_scenario (resolve_scenario s) = resolve_scenario s"
  by (auto simp: resolve_scenario_def EMISSION_SCENARIOS_def)

lemma annual_increase_at_closed:
  assumes "EMISSION_SCENARIOS (resolve_scenario s) = Some sd" and "0 \<le> i"
  shows "annual_increase_at (resolve_scenario s) sd cy i = Inr (scenario_increase (resolve_scenario s) cy i)"
  using resolve_scenario_known[of s] assms
  by (auto simp: annual_increase_at_def scenario_increase_def EMISSION_SCENARIOS_def Let_def)

lemma annual_increase_at_total:
  assumes "EMISSION_SCENARIOS (resolve_scenario s) = Some sd" and "0 \<le> i"
  shows "\<exists>a. annual_increase_at (resolve_scenario s) sd cy i = Inr a"
  using annual_increase_at_closed[OF assms] by blast

lemma co2_concentrations_length:
  "co2_concentrations inc l js = Inr cs \<Longrightarrow> length cs = length js"
  by (induction js arbitrary: l cs) (auto split: sum.splits)

lemma co2_concentrations_total:
  "(\<And>i. i \<in> set js \<Longrightarrow> \<exists>a. inc i = Inr a) \<Longrightarrow> \<exists>cs. co2_concentrations inc l js = Inr cs"
proof (induction js arbitrary: l)
  case Nil
  then show ?case by simp
next
  case (Cons j js)
  then obtain a where a: "inc j = Inr a" by auto
  from Cons obtain cs where "co2_concentrations inc (l + a) js = Inr cs" by auto
  with a show ?case by simp
qed

lemma co2_levels_length:
  "co2_levels inc l js = Inr cs \<Longrightarrow> length cs = length js"
  by (induction js arbitrary: l cs) (auto split: sum.splits)

lemma temperature_loop_length: "length (temperature_loop p t cs) = length cs"
  by (induction cs arbitrary: t) (simp_all add: Let_def)

lemma advanced_sea_levels_length: "length (advanced_sea_levels t0 i prev ts) = length ts"
  by (induction ts arbitrary: i prev) (simp_all add: Let_def)

lemma sim_rows_years:
  assumes "length cs = length ys" "length ts = length ys" "length ds = length ys"
    "length ss = length ys" "length ices = length ys" "length ws = length ys"
  shows "map sim_year (sim_rows ys cs ts ds ss ices ws) = ys"
proof -
  have "map sim_year (sim_rows ys cs ts ds ss ices ws)
      = map fst (zip ys (zip cs (zip ts (zip ds (zip ss (zip ices ws))))))"
    by (simp add: sim_rows_def case_prod_unfold)
  also have "\<dots> = ys" using assms by simp
  finally show ?thesis .
qed

lemma simple_years:
  assumes "run_climate_simulation cy s h p = Inr rows"
  shows "map sim_year rows = [cy..cy + h - 1]"
proof -
  from assms obtain sd co2s and q :: simple_params where
    co2s: "co2_concentrations (annual_increase_at (resolve_scenario s) sd cy) (current_co2 q) [0..h - 1] = Inr co2s"
    and rows: "rows = sim_rows [cy..cy + h - 1] co2s (temperature_loop q (initial_temperature q) co2s)
            (map (\<lambda>_. None) (temperature_loop q (initial_temperature q) co2s))
            (simple_sea_levels q (temperature_loop q (initial_temperature q) co2s))
            (simple_ice_extent q (temperature_loop q (initial_temperature q) co2s))
            (simple_extreme_weather q (temperature_loop q (initial_temperature q) co2s))"
    unfolding run_climate_simulation_def Let_def
    by (auto split: option.splits sum.splits if_splits)
  have len: "length co2s = length [cy..cy + h - 1]"
    using co2_concentrations_length[OF co2s] by simp
  show ?thesis unfolding rows
    by (rule sim_rows_years)
       (simp_all add: len temperature_loop_length simple_sea_levels_def simple_ice_extent_def
          simple_extreme_weather_def enumerate_eq_zip)
qed

lemma advanced_years:
  assumes "run_advanced_climate_simulation odeint cy s h p = Inr rows"
  shows "map sim_year rows = [cy..cy + h] \<and> 0 \<le> h"
proof -
  from assms have h: "0 \<le> h"
    unfolding run_advanced_climate_simulation_def Let_def
    by (auto split: option.splits sum.splits if_splits)
  from assms obtain sd rest y and q :: advanced_params where
    rest: "co2_levels (annual_increase_at (resolve_scenario s) sd cy) (current_co2 q) [1..h] = Inr rest"
    and y: "length y = length [cy..cy + h]"
    and rows: "rows = sim_rows [cy..cy + h] (current_co2 q # rest) (map (py_round 2) (map fst y))
            (map (\<lambda>yd. Some (py_round 2 (snd yd))) y)
            (advanced_sea_levels (initial_temperature q) 0 0 (map fst y))
            (advanced_ice_extent (initial_temperature q) (map fst y))
            (advanced_extreme_weather (initial_temperature q) (map fst y))"
    unfolding run_advanced_climate_simulation_def Let_def
    by (auto split: option.splits sum.splits if_splits)
  have len: "length (current_co2 q # rest) = length [cy..cy + h]"
    using co2_levels_length[OF rest] h by simp
  have "map sim_year rows = [cy..cy + h]" unfolding rows
    by (rule sim_rows_years)
       (simp_all only: len y length_map advanced_sea_levels_length advanced_ice_extent_def
          advanced_extreme_weather_def)
  with h show ?thesis by simp
qed

lemma simple_returns:
  assumes "baseline_co2 (params_or_default p) \<noteq> 0"
  shows "\<exists>rows. run_climate_simulation cy s h p = Inr rows"
proof -
  define q where "q = params_or_default p"
  obtain sd where sd: "EMISSION_SCENARIOS (resolve_scenario s) = Some sd"
    using resolve_scenario_known[of s] by (auto simp: EMISSION_SCENARIOS_def)
  have "\<exists>cs. co2_concentrations (annual_increase_at (resolve_scenario s) sd cy)
          (current_co2 q) [0..h - 1] = Inr cs"
    by (rule co2_concentrations_total) (auto intro: annual_increase_at_total[OF sd])
  then obtain cs where cs: "co2_concentrations (annual_increase_at (resolve_scenario s) sd cy)
          (current_co2 q) [0..h - 1] = Inr cs" by blast
  show ?thesis
    unfolding run_climate_simulation_def Let_def q_def[symmetric]
    using sd cs assms by (simp add: q_def)
qed

lemma co2_levels_total:
  "(\<And>i. i \<in> set js \<Longrightarrow> \<exists>a. inc i = Inr a) \<Longrightarrow> \<exists>cs. co2_levels inc l js = Inr cs"
proof (induction js arbitrary: l)
  case Nil
  then show ?case by simp
next
  case (Cons j js)
  then obtain a where a: "inc j = Inr a" by auto
  from Cons obtain cs where "co2_levels inc (l + a) js = Inr cs" by auto
  with a show ?case by simp
qed

lemma advanced_returns:
  assumes "0 \<le> h"
    and "\<And>f y0. \<exists>y. odeint f y0 (map real_of_int [0..h]) = Inr y \<and> length y = nat h + 1"
  shows "\<exists>rows. run_advanced_climate_simulation odeint cy s h p = Inr rows"
proof -
  define q where "q = advanced_params_or_default p"
  obtain sd where sd: "EMISSION_SCENARIOS (resolve_scenario s) = Some sd"
    using resolve_scenario_known[of s] by (auto simp: EMISSION_SCENARIOS_def)
  have "\<exists>cs. co2_levels (annual_increase_at (resolve_scenario s) sd cy)
          (current_co2 q) [1..h] = Inr cs"
    by (rule co2_levels_total) (auto intro: annual_increase_at_total[OF sd])
  then obtain cs where cs: "co2_levels (annual_increase_at (resolve_scenario s) sd cy)
          (current_co2 q) [1..h] = Inr cs" by blast
  obtain y where y: "odeint (climate_system (current_co2 q # cs) q)
      (initial_temperature q, deep_ocean_temperature q) (map real_of_int [0..h]) = Inr y"
    and ly: "length y = nat h + 1"
    using assms(2) by blast
  have "length y = length [cy..cy + h]" using ly assms(1) by simp
  then show ?thesis
    unfolding run_advanced_climate_simulation_def Let_def q_def[symmetric]
    using sd cs y assms(1) by simp
qed

text \<open>
  Claim C5 fails for the annual-increment integrator: its year column is
  \<open>range(current_year, current_year + years)\<close>, so a horizon of 2 years from 2026 gives the
  two entries 2026 and 2027, not three entries through 2028.
\<close>

theorem simple_integrator_length_counterexample:
  "(case run_climate_simulation 2026 ''business_as_usual'' 2 None of
      Inl e \<Rightarrow> None | Inr rows \<Rightarrow> Some (map sim_year rows)) = Some [2026, 2027]"
proof -
  have "baseline_co2 (params_or_default None) \<noteq> 0"
    by (simp add: params_or_default_def DEFAULT_PARAMS_def)
  from simple_returns[OF this] obtain rows where
    r: "run_climate_simulation 2026 ''business_as_usual'' 2 None = Inr rows" by blast
  from simple_years[OF r] have "map sim_year rows = [2026, 2027]"
    by (simp add: upto_rec_numeral)
  with r show ?thesis by simp
qed

text \<open>
  Claim C5, amended. For a horizon of \<open>h\<close> years the annual-increment integrator returns
  exactly \<open>h\<close> entries, one per year from the start year through start year + \<open>h\<close> - 1;
  the ODE integrator, whenever it returns, returns exactly \<open>h\<close> + 1 entries, one per year
  from the start year through start year + \<open>h\<close>, whatever the solver.
\<close>

theorem trajectory_lengths:
  "(run_climate_simulation cy s h p = Inr rows \<longrightarrow>
      map sim_year rows = [cy..cy + h - 1] \<and> length rows = nat h) \<and>
   (run_advanced_climate_simulation odeint cy s h pa = Inr rows' \<longrightarrow>
      map sim_year rows' = [cy..cy + h] \<and> length rows' = nat h + 1)"
proof (intro conjI impI)
  assume r: "run_climate_simulation cy s h p = Inr rows"
  from simple_years[OF r] show "map sim_year rows = [cy..cy + h - 1]" .
  then have "length (map sim_year rows) = length [cy..cy + h - 1]" by simp
  then show "length rows = nat h" by simp
next
  assume r: "run_advanced_climate_simulation odeint cy s h pa = Inr rows'"
  from advanced_years[OF r] show y: "map sim_year rows' = [cy..cy + h]" by simp
  from advanced_years[OF r] have h: "0 \<le> h" by simp
  from y have "length (map sim_year rows') = length [cy..cy + h]" by simp
  with h show "length rows' = nat h + 1" by simp
qed

theorem trajectory_lengths_witness:
  "(\<exists>rows. run_climate_simulation 2026 ''business_as_usual'' 2 None = Inr rows \<and>
       map sim_year rows = [2026, 2027] \<and> length rows = 2) \<and>
   (\<exists>rows. run_advanced_climate_simulation constant_solver 2026 ''business_as_usual'' 2 None
         = Inr rows \<and>
       map sim_year rows = [2026, 2027, 2028] \<and> length rows = 3)"
proof -
  have "baseline_co2 (params_or_default None) \<noteq> 0"
    by (simp add: params_or_default_def DEFAULT_PARAMS_def)
  from simple_returns[OF this] obtain rows where
    r: "run_climate_simulation 2026 ''business_as_usual'' 2 None = Inr rows" by blast
  have "\<exists>rows. run_advanced_climate_simulation constant_solver 2026 ''business_as_usual'' 2 None
         = Inr rows"
    by (rule advanced_returns) (simp_all add: constant_solver_def)
  then obtain rows' where
    r': "run_advanced_climate_simulation constant_solver 2026 ''business_as_usual'' 2 None
         = Inr rows'" by blast
  have u: "[2026..2026 + 2 - 1] = [2026, 2027 :: int]" "[2026..2026 + 2] = [2026, 2027, 2028 :: int]"
    by (simp_all add: upto_rec_numeral)
  from trajectory_lengths[of 2026 "''business_as_usual''" 2 None rows constant_solver None rows']
    r r' show ?thesis
    unfolding u by auto
qed

text \<open>
  Claim C4 fails: an unknown scenario id raises nothing, the run is carried out (as
  \<open>business_as_usual\<close>) and returns a frame; an unknown intervention id raises nothing
  either, the simulator returns \<open>None\<close>.
\<close>

theorem unknown_ids_counterexample:
  "\<not> isl (run_climate_simulation 2026 ''no_such_scenario'' 1 None) \<and>
   simulate_intervention ''no_such_intervention'' Map.empty 30 ''moderate'' clock_2026 (\<lambda>k. []) = Inr None"
proof -
  have "baseline_co2 (params_or_default None) \<noteq> 0"
    by (simp add: params_or_default_def DEFAULT_PARAMS_def)
  from simple_returns[OF this] obtain rows where
    r: "run_climate_simulation 2026 ''no_such_scenario'' 1 None = Inr rows" by blast
  have "simulate_intervention ''no_such_intervention'' Map.empty 30 ''moderate'' clock_2026 (\<lambda>k. []) = Inr None"
    by (simp add: simulate_intervention_def intervention_effects_def)
  with r show ?thesis by simp
qed

text \<open>
  Claim C4, amended. An unknown scenario id is replaced by \<open>business_as_usual\<close> in both
  simulation entry points, which then behave exactly as for that scenario; an unknown
  intervention id makes the intervention simulator return \<open>None\<close> at once, whatever the
  other arguments, the clock and the random generator are. Neither raises.
\<close>

theorem unknown_ids_fall_back:
  "(s \<notin> dom EMISSION_SCENARIOS \<longrightarrow>
      run_climate_simulation cy s h p = run_climate_simulation cy ''business_as_usual'' h p \<and>
      run_advanced_climate_simulation odeint cy s h pa =
        run_advanced_climate_simulation odeint cy ''business_as_usual'' h pa) \<and>
   (t \<notin> dom intervention_effects \<longrightarrow>
      simulate_intervention t custom years sc clk draws = Inr None)"
proof -
  have bau: "resolve_scenario ''business_as_usual'' = ''business_as_usual''"
    by (simp add: resolve_scenario_def)
  have "resolve_scenario s = resolve_scenario ''business_as_usual''"
    if "s \<notin> dom EMISSION_SCENARIOS"
    using that by (simp add: resolve_scenario_unknown bau)
  moreover have "simulate_intervention t custom years sc clk draws = Inr None"
    if "t \<notin> dom intervention_effects"
    using that by (auto simp: simulate_intervention_def split: option.splits)
  ultimately show ?thesis
    by (simp add: run_climate_simulation_def run_advanced_climate_simulation_def)
qed

theorem unknown_ids_fall_back_witness:
  "''no_such_scenario'' \<notin> dom EMISSION_SCENARIOS \<and>
   ''no_such_intervention'' \<notin> dom intervention_effects \<and>
   run_climate_simulation 2026 ''no_such_scenario'' 3 None =
     run_climate_simulation 2026 ''business_as_usual'' 3 None \<and>
   run_advanced_climate_simulation constant_solver 2026 ''no_such_scenario'' 3 None =
     run_advanced_climate_simulation constant_solver 2026 ''business_as_usual'' 3 None \<and>
   simulate_intervention ''no_such_intervention'' Map.empty 30 ''moderate'' clock_2026 (\<lambda>k. []) = Inr None"
proof -
  have a: "''no_such_scenario'' \<notin> dom EMISSION_SCENARIOS"
    by (simp add: EMISSION_SCENARIOS_def)
  have b: "''no_such_intervention'' \<notin> dom intervention_effects"
    by (simp add: intervention_effects_def)
  from unknown_ids_fall_back[of "''no_such_scenario''" 2026 3 None constant_solver None
      "''no_such_intervention''" Map.empty 30 "''moderate''" clock_2026 "\<lambda>k. []"] a b
  show ?thesis by blast
qed

lemma co2_concentrations_pure:
  "(\<And>j. j \<in> set js \<Longrightarrow> inc j = Inr (g j)) \<Longrightarrow>
   co2_concentrations inc l js = Inr (co2_pure g l js)"
  by (induction js arbitrary: l) simp_all

lemma co2_pure_length: "length (co2_pure g l js) = length js"
  by (induction js arbitrary: l) simp_all

lemma co2_pure_last:
  "js \<noteq> [] \<Longrightarrow> last (co2_pure g l js) = py_round 1 (l + sum_list (map g js))"
proof (induction js arbitrary: l)
  case Nil
  then show ?case by simp
next
  case (Cons j js)
  show ?case
  proof (cases "js = []")
    case True
    then show ?thesis by simp
  next
    case False
    then have "co2_pure g (l + g j) js \<noteq> []"
      using co2_pure_length[of g "l + g j" js] by auto
    with Cons.IH[OF False, of "l + g j"] show ?thesis
      by (simp add: add.assoc)
  qed
qed

lemma co2_pure_pos:
  "(\<And>j. j \<in> set js \<Longrightarrow> 0 \<le> g j) \<Longrightarrow> 1 / 20 < l \<Longrightarrow> c \<in> set (co2_pure g l js) \<Longrightarrow> 0 < c"
proof (induction js arbitrary: l)
  case Nil
  then show ?case by simp
next
  case (Cons j js)
  have gj: "0 \<le> g j" using Cons.prems(1) by simp
  have big: "1 / 20 < l + g j" using gj Cons.prems(2) by linarith
  from Cons.prems(3) consider "c = py_round 1 (l + g j)" | "c \<in> set (co2_pure g (l + g j) js)"
    by auto
  then show ?case
  proof cases
    case 1
    have "\<bar>py_round 1 (l + g j) - (l + g j)\<bar> \<le> (1 / 2) / 10 ^ 1"
      by (rule py_round_error)
    moreover have "(1 / 2) / 10 ^ 1 = (1 / 20 :: real)" by simp
    ultimately have "l + g j - 1 / 20 \<le> py_round 1 (l + g j)" by linarith
    with big 1 show ?thesis by linarith
  next
    case 2
    show ?thesis
      by (rule Cons.IH[OF _ big 2]) (simp add: Cons.prems(1))
  qed
qed

lemma scenario_increase_nonneg:
  assumes "sc \<noteq> ''negative_emissions''" and "0 \<le> i"
  shows "0 \<le> scenario_increase sc cy i"
proof -
  have "real_of_int i / real_of_int (2050 - cy) \<le> 1" if "cy + i < 2050"
  proof -
    have "0 < real_of_int (2050 - cy)" using that assms(2) by simp
    moreover have "real_of_int i \<le> real_of_int (2050 - cy)" using that by simp
    ultimately show ?thesis by (simp add: divide_le_eq)
  qed
  then show ?thesis using assms by (auto simp: scenario_increase_def)
qed

lemma sim_rows_nth:
  assumes "length cs = length ys" "length ts = length ys" "length ds = length ys"
    "length ss = length ys" "length ices = length ys" "length ws = length ys" "i < length ys"
  shows "sim_rows ys cs ts ds ss ices ws ! i =
     \<lparr>sim_year = ys ! i, co2 = cs ! i, temperature = ts ! i, deep_ocean = ds ! i,
      sea_level_rise = ss ! i, arctic_ice = ices ! i, extreme_weather_index = ws ! i\<rparr>"
  using assms by (simp add: sim_rows_def)

lemma sim_rows_length:
  assumes "length cs = length ys" "length ts = length ys" "length ds = length ys"
    "length ss = length ys" "length ices = length ys" "length ws = length ys"
  shows "length (sim_rows ys cs ts ds ss ices ws) = length ys"
  using assms by (simp add: sim_rows_def)

lemma sim_rows_columns:
  assumes "length cs = length ys" "length ts = length ys" "length ds = length ys"
    "length ss = length ys" "length ices = length ys" "length ws = length ys"
  shows "map co2 (sim_rows ys cs ts ds ss ices ws) = cs"
    and "map temperature (sim_rows ys cs ts ds ss ices ws) = ts"
    and "map arctic_ice (sim_rows ys cs ts ds ss ices ws) = ices"
  using assms
  by (auto simp: list_eq_iff_nth_eq sim_rows_length sim_rows_nth)

lemma simple_columns:
  assumes "run_climate_simulation cy s h p = Inr rows"
  defines "q \<equiv> params_or_default p"
  defines "cs \<equiv> co2_pure (scenario_increase (resolve_scenario s) cy) (current_co2 q) [0..h - 1]"
  shows "map co2 rows = cs"
    and "map temperature rows = temperature_loop q (initial_temperature q) cs"
    and "map arctic_ice rows = simple_ice_extent q (temperature_loop q (initial_temperature q) cs)"
    and "cs \<noteq> [] \<longrightarrow> baseline_co2 q \<noteq> 0"
proof -
  obtain sd where sd: "EMISSION_SCENARIOS (resolve_scenario s) = Some sd"
    using resolve_scenario_known[of s] by (auto simp: EMISSION_SCENARIOS_def)
  have co2s: "co2_concentrations (annual_increase_at (resolve_scenario s) sd cy)
          (current_co2 q) [0..h - 1] = Inr cs"
    unfolding cs_def
    by (rule co2_concentrations_pure) (simp add: annual_increase_at_closed[OF sd])
  from assms(1) have ok: "\<not> (cs \<noteq> [] \<and> baseline_co2 q = 0)"
    and rows: "rows = sim_rows [cy..cy + h - 1] cs (temperature_loop q (initial_temperature q) cs)
            (map (\<lambda>_. None) (temperature_loop q (initial_temperature q) cs))
            (simple_sea_levels q (temperature_loop q (initial_temperature q) cs))
            (simple_ice_extent q (temperature_loop q (initial_temperature q) cs))
            (simple_extreme_weather q (temperature_loop q (initial_temperature q) cs))"
    unfolding run_climate_simulation_def Let_def q_def[symmetric]
    using sd co2s by (auto split: if_splits)
  have len: "length cs = length [cy..cy + h - 1]"
    by (simp add: cs_def co2_pure_length)
  note lens = len temperature_loop_length simple_sea_levels_def simple_ice_extent_def
          simple_extreme_weather_def enumerate_eq_zip
  show "map co2 rows = cs" unfolding rows
    by (rule sim_rows_columns) (simp_all add: lens)
  show "map temperature rows = temperature_loop q (initial_temperature q) cs" unfolding rows
    by (rule sim_rows_columns) (simp_all add: lens)
  show "map arctic_ice rows = simple_ice_extent q (temperature_loop q (initial_temperature q) cs)"
    unfolding rows
    by (rule sim_rows_columns) (simp_all add: lens)
  show "cs \<noteq> [] \<longrightarrow> baseline_co2 q \<noteq> 0" using ok by blast
qed

lemma simple_ice_extent_nonneg: "a \<in> set (simple_ice_extent q temps) \<Longrightarrow> 0 \<le> a"
  by (auto simp: simple_ice_extent_def Let_def intro: py_round_nonneg)

lemma negative_emissions_sum:
  "sum_list (map (scenario_increase ''negative_emissions'' 2026) [0..149]) \<le> - 178 / 10"
proof -
  let ?g = "scenario_increase ''negative_emissions'' 2026"
  define early :: "int list" where "early = [0..43]"
  define late :: "int list" where "late = [43 + 1..149]"
  have split: "[0..149] = early @ late"
    unfolding early_def late_def by (rule upto_split2) simp_all
  have early_set: "set early = {0..43}" and late_set: "set late = {43 + 1..149}"
    unfolding early_def late_def by (rule set_upto)+
  have "length early = nat (43 - 0 + 1)" and "length late = nat (149 - (43 + 1) + 1)"
    unfolding early_def late_def by (rule length_upto)+
  then have early_len: "length early = 44" and late_len: "length late = 106"
    by simp_all
  have early_le: "sum_list (map ?g early) \<le> sum_list (map (\<lambda>_. 8 / 10) early)"
  proof (rule sum_list_mono)
    fix i :: int assume "i \<in> set early"
    then have i: "0 \<le> i" "i \<le> 43" unfolding early_set by simp_all
    then have "0 \<le> 15 / 10 * real_of_int i / 44" by simp
    with i show "?g i \<le> 8 / 10" by (simp add: scenario_increase_def)
  qed
  have late_eq: "map ?g late = map (\<lambda>_. - 1 / 2) late"
  proof (rule map_cong[OF refl])
    fix i :: int assume "i \<in> set late"
    then have "44 \<le> i" unfolding late_set by simp
    then show "?g i = - 1 / 2" by (simp add: scenario_increase_def)
  qed
  have "sum_list (map ?g [0..149]) = sum_list (map ?g early) + sum_list (map ?g late)"
    by (simp only: split map_append sum_list_append)
  also have "\<dots> \<le> sum_list (map (\<lambda>_. 8 / 10) early) + sum_list (map (\<lambda>_. - 1 / 2) late)"
    using early_le by (simp only: late_eq add_right_mono)
  also have "\<dots> = - 178 / 10"
    by (simp add: sum_list_triv early_len late_len)
  finally show ?thesis .
qed

lemma scenario_increase_lower:
  assumes "0 \<le> i"
  shows "- 1 / 2 \<le> scenario_increase sc cy i"
proof (cases "sc = ''negative_emissions''")
  case False
  from scenario_increase_nonneg[OF False assms, of cy] show ?thesis by linarith
next
  case True
  show ?thesis
  proof (cases "cy + i < 2070")
    case False
    with True show ?thesis by (simp add: scenario_increase_def)
  next
    case less: True
    define x where "x = real_of_int i / real_of_int (2070 - cy)"
    have pos: "0 < real_of_int (2070 - cy)" using less assms by simp
    have "real_of_int i \<le> real_of_int (2070 - cy)" using less by simp
    then have "x \<le> 1"
      unfolding x_def using pos by (simp add: divide_le_eq)
    then have low: "- 1 / 2 \<le> 8 / 10 * (1 - 15 / 10 * x)" by simp
    have "scenario_increase sc cy i = 8 / 10 * (1 - 15 / 10 * x)"
      using True less by (simp add: scenario_increase_def x_def)
    with low show ?thesis by simp
  qed
qed

lemma co2_pure_pos_bounded:
  "(\<And>j. j \<in> set js \<Longrightarrow> - 1 / 2 \<le> g j) \<Longrightarrow> 1 / 20 + real (length js) / 2 < l \<Longrightarrow>
   c \<in> set (co2_pure g l js) \<Longrightarrow> 0 < c"
proof (induction js arbitrary: l)
  case Nil
  then show ?case by simp
next
  case (Cons j js)
  have gj: "- 1 / 2 \<le> g j" using Cons.prems(1) by simp
  have "1 / 20 + (real (length js) + 1) / 2 < l" using Cons.prems(2) by (simp add: algebra_simps)
  with gj have big: "1 / 20 + real (length js) / 2 < l + g j" by (simp add: field_simps)
  then have big': "1 / 20 < l + g j" by (simp add: field_simps)
  from Cons.prems(3) consider "c = py_round 1 (l + g j)" | "c \<in> set (co2_pure g (l + g j) js)"
    by auto
  then show ?case
  proof cases
    case 1
    have "\<bar>py_round 1 (l + g j) - (l + g j)\<bar> \<le> (1 / 2) / 10 ^ 1"
      by (rule py_round_error)
    moreover have "(1 / 2) / 10 ^ 1 = (1 / 20 :: real)" by simp
    ultimately have "l + g j - 1 / 20 \<le> py_round 1 (l + g j)" by linarith
    with big' 1 show ?thesis by linarith
  next
    case 2
    show ?thesis
    proof (rule Cons.IH[OF _ big 2])
      fix k assume "k \<in> set js"
      then have "k \<in> set (j # js)" by simp
      then show "- 1 / 2 \<le> g k" by (rule Cons.prems(1))
    qed
  qed
qed

text \<open>
  Claim C3 fails for the CO2 column: nothing in the integrator keeps it positive. Take the
  default parameters with the initial concentration \<open>current_co2\<close> set to 10 ppm, the start
  year 2026, the scenario \<open>negative_emissions\<close> and a horizon of 150 years. The level gains
  at most 0.8 ppm in each of the 44 years before 2070 and loses 0.5 ppm in each of the 106
  years after, so the last recorded concentration is not positive, and the logarithm is
  taken of it.
\<close>

theorem co2_nonpositive_counterexample:
  "(case run_climate_simulation 2026 ''negative_emissions'' 150
          (Some (DEFAULT_PARAMS\<lparr>current_co2 := 10\<rparr>)) of
      Inl e \<Rightarrow> False
    | Inr rows \<Rightarrow> co2 (last rows) \<le> 0)"
proof -
  let ?p = "Some (DEFAULT_PARAMS\<lparr>current_co2 := 10\<rparr>)"
  have "baseline_co2 (params_or_default ?p) \<noteq> 0"
    by (simp add: params_or_default_def DEFAULT_PARAMS_def)
  from simple_returns[OF this] obtain rows where
    r: "run_climate_simulation 2026 ''negative_emissions'' 150 ?p = Inr rows" by blast
  have rs: "resolve_scenario ''negative_emissions'' = ''negative_emissions''"
    by (simp add: resolve_scenario_def EMISSION_SCENARIOS_def)
  have c0: "current_co2 (params_or_default ?p) = 10"
    by (simp add: params_or_default_def)
  have h: "(150::int) - 1 = 149" by simp
  have cols: "map co2 rows = co2_pure (scenario_increase ''negative_emissions'' 2026) 10 [0..149]"
    using simple_columns(1)[OF r] by (simp only: rs c0 h)
  have nonempty: "[0..149::int] \<noteq> []"
    by (simp only: upto_Nil)
  have "length (map co2 rows) = length [0..149::int]"
    unfolding cols by (rule co2_pure_length)
  with nonempty have ne: "rows \<noteq> []" by auto
  have "co2 (last rows) = last (map co2 rows)"
    using ne by (simp add: last_map)
  also have "\<dots> = py_round 1 (10 + sum_list (map (scenario_increase ''negative_emissions'' 2026) [0..149]))"
    unfolding cols by (rule co2_pure_last[OF nonempty])
  also have "\<dots> \<le> 0"
    using negative_emissions_sum by (intro py_round_nonpos) linarith
  finally show ?thesis using r by simp
qed

text \<open>
  Claim C3, amended. In every trajectory that \<open>run_climate_simulation\<close> returns, for every
  parameter set, scenario id and horizon, the ice extent of every row is at least 0. The
  CO2 value of every row, which is the value whose logarithm is taken, is strictly
  positive in two cases: when the scenario (after the fallback for unknown ids) is not
  \<open>negative_emissions\<close> and the initial concentration \<open>current_co2\<close> exceeds 0.05 ppm; and,
  for every scenario, when \<open>current_co2\<close> exceeds 0.05 ppm plus half a ppm per simulated
  year. With the default 417 ppm the second case covers every horizon up to 833 years.
\<close>

theorem ice_nonnegative_and_co2_positive:
  assumes "run_climate_simulation cy s h p = Inr rows" and "r \<in> set rows"
  shows "0 \<le> arctic_ice r \<and>
         (resolve_scenario s \<noteq> ''negative_emissions'' \<longrightarrow>
          1 / 20 < current_co2 (params_or_default p) \<longrightarrow> 0 < co2 r) \<and>
         (1 / 20 + real_of_int h / 2 < current_co2 (params_or_default p) \<longrightarrow> 0 < co2 r)"
proof -
  have "arctic_ice r \<in> set (map arctic_ice rows)" using assms(2) by simp
  then have ice: "0 \<le> arctic_ice r"
    unfolding simple_columns(3)[OF assms(1)] by (rule simple_ice_extent_nonneg)
  have "co2 r \<in> set (map co2 rows)" using assms(2) by simp
  then have mem: "co2 r \<in> set (co2_pure (scenario_increase (resolve_scenario s) cy)
      (current_co2 (params_or_default p)) [0..h - 1])"
    unfolding simple_columns(1)[OF assms(1)] .
  have first: "0 < co2 r"
    if sc: "resolve_scenario s \<noteq> ''negative_emissions''"
      and c: "1 / 20 < current_co2 (params_or_default p)"
  proof (rule co2_pure_pos[OF _ c mem])
    fix j assume "j \<in> set [0..h - 1]"
    then have "0 \<le> j" by simp
    then show "0 \<le> scenario_increase (resolve_scenario s) cy j"
      by (rule scenario_increase_nonneg[OF sc])
  qed
  have second: "0 < co2 r"
    if c: "1 / 20 + real_of_int h / 2 < current_co2 (params_or_default p)"
  proof -
    have "[0..h - 1] \<noteq> []" using mem by auto
    then have hpos: "0 < h" by simp
    have "length [0..h - 1] = nat h" by simp
    then have "real (length [0..h - 1]) = real_of_int h" using hpos by simp
    with c have c': "1 / 20 + real (length [0..h - 1]) / 2 < current_co2 (params_or_default p)"
      by simp
    show ?thesis
    proof (rule co2_pure_pos_bounded[OF _ c' mem])
      fix j assume "j \<in> set [0..h - 1]"
      then have "0 \<le> j" by simp
      then show "- 1 / 2 \<le> scenario_increase (resolve_scenario s) cy j"
        by (rule scenario_increase_lower)
    qed
  qed
  from ice first second show ?thesis by blast
qed

theorem ice_nonnegative_and_co2_positive_witness:
  "resolve_scenario ''net_zero'' \<noteq> ''negative_emissions'' \<and>
   1 / 20 < current_co2 (params_or_default None) \<and>
   1 / 20 + real_of_int 3 / 2 < current_co2 (params_or_default None) \<and>
   (\<exists>rows. run_climate_simulation 2026 ''net_zero'' 3 None = Inr rows \<and>
      hd rows \<in> set rows \<and> 0 \<le> arctic_ice (hd rows) \<and> 0 < co2 (hd rows)) \<and>
   1 / 20 + real_of_int 150 / 2 < current_co2 (params_or_default None) \<and>
   (\<exists>rows. run_climate_simulation 2026 ''negative_emissions'' 150 None = Inr rows \<and>
      last rows \<in> set rows \<and> 0 < co2 (last rows))"
proof -
  have sc: "resolve_scenario ''net_zero'' \<noteq> ''negative_emissions''"
    by (simp add: resolve_scenario_def EMISSION_SCENARIOS_def)
  have c: "1 / 20 < current_co2 (params_or_default None)"
    by (simp add: params_or_default_def DEFAULT_PARAMS_def)
  have c3: "1 / 20 + real_of_int 3 / 2 < current_co2 (params_or_default None)"
    by (simp add: params_or_default_def DEFAULT_PARAMS_def)
  have c150: "1 / 20 + real_of_int 150 / 2 < current_co2 (params_or_default None)"
    by (simp add: params_or_default_def DEFAULT_PARAMS_def)
  have b: "baseline_co2 (params_or_default None) \<noteq> 0"
    by (simp add: params_or_default_def DEFAULT_PARAMS_def)
  from simple_returns[OF b] obtain rows where
    r: "run_climate_simulation 2026 ''net_zero'' 3 None = Inr rows" by blast
  from simple_years[OF r] have "length (map sim_year rows) = length [2026..2026 + 3 - 1]"
    by simp
  then have "rows \<noteq> []" by auto
  then have mem: "hd rows \<in> set rows" by simp
  from simple_returns[OF b] obtain rows' where
    r': "run_climate_simulation 2026 ''negative_emissions'' 150 None = Inr rows'" by blast
  from simple_years[OF r'] have "length (map sim_year rows') = length [2026..2026 + 150 - 1]"
    by simp
  then have "length rows' = 150" by simp
  then have "rows' \<noteq> []" by auto
  then have mem': "last rows' \<in> set rows'" by simp
  from ice_nonnegative_and_co2_positive[OF r mem] sc c c3 r mem
  have one: "\<exists>rows. run_climate_simulation 2026 ''net_zero'' 3 None = Inr rows \<and>
      hd rows \<in> set rows \<and> 0 \<le> arctic_ice (hd rows) \<and> 0 < co2 (hd rows)"
    by blast
  from ice_nonnegative_and_co2_positive[OF r' mem'] c150 r' mem'
  have two: "\<exists>rows. run_climate_simulation 2026 ''negative_emissions'' 150 None = Inr rows \<and>
      last rows \<in> set rows \<and> 0 < co2 (last rows)"
    by blast
  from sc c c3 one c150 two show ?thesis by blast
qed

lemma co2_pure_const:
  "co2_pure (\<lambda>_. a) l js = map (\<lambda>n. py_round 1 (l + a * real (Suc n))) [0..<length js]"
proof (induction js arbitrary: l)
  case Nil
  then show ?case by simp
next
  case (Cons j js)
  have "[0..<length (j # js)] = 0 # map Suc [0..<length js]"
    by (simp add: upt_conv_Cons map_Suc_upt del: upt_Suc)
  then show ?case
    by (simp add: Cons.IH o_def del: upt_Suc) (simp add: algebra_simps)
qed

lemma temperature_loop_last:
  "cs \<noteq> [] \<Longrightarrow>
   last (temperature_loop p t cs) = py_round 2 (t + sum_list (map (temp_change_of p) cs))"
proof (induction cs arbitrary: t)
  case Nil
  then show ?case by simp
next
  case (Cons c cs)
  show ?case
  proof (cases "cs = []")
    case True
    then show ?thesis by (simp add: Let_def temp_change_of_def)
  next
    case False
    then have "temperature_loop p (t + temp_change_of p c) cs \<noteq> []"
      using temperature_loop_length[of p "t + temp_change_of p c" cs] by auto
    with Cons.IH[OF False, of "t + temp_change_of p c"] show ?thesis
      by (simp add: Let_def temp_change_of_def add.assoc)
  qed
qed

lemma ln_lower: "0 < x \<Longrightarrow> 1 - 1 / x \<le> ln (x::real)"
  using ln_le_minus_one[of "1 / x"] by (simp add: ln_div)

lemma final_temperature:
  assumes "run_climate_simulation cy s h p = Inr rows" and "0 < h"
  shows "temperature (last rows) =
     py_round 2 (initial_temperature (params_or_default p) +
       sum_list (map (temp_change_of (params_or_default p))
         (co2_pure (scenario_increase (resolve_scenario s) cy)
            (current_co2 (params_or_default p)) [0..h - 1])))"
proof -
  let ?q = "params_or_default p"
  let ?cs = "co2_pure (scenario_increase (resolve_scenario s) cy) (current_co2 ?q) [0..h - 1]"
  have "length ?cs = nat h" by (simp add: co2_pure_length)
  with assms(2) have cs: "?cs \<noteq> []" by auto
  have t: "map temperature rows = temperature_loop ?q (initial_temperature ?q) ?cs"
    by (rule simple_columns(2)[OF assms(1)])
  have "length (map temperature rows) = length ?cs"
    unfolding t by (rule temperature_loop_length)
  then have "length rows = length ?cs" by simp
  with cs have ne: "rows \<noteq> []" by auto
  have "temperature (last rows) = last (map temperature rows)"
    using ne by (simp add: last_map)
  also have "\<dots> = py_round 2 (initial_temperature ?q + sum_list (map (temp_change_of ?q) ?cs))"
    unfolding t by (rule temperature_loop_last[OF cs])
  finally show ?thesis .
qed


lemma scenario_increase_constant:
  "scenario_increase ''business_as_usual'' cy = (\<lambda>_. 25 / 10)"
  "scenario_increase ''moderate_mitigation'' cy = (\<lambda>_. 12 / 10)"
  by (auto simp: scenario_increase_def)

lemma resolve_scenario_constant:
  "resolve_scenario ''business_as_usual'' = ''business_as_usual''"
  "resolve_scenario ''moderate_mitigation'' = ''moderate_mitigation''"
  by (simp_all add: resolve_scenario_def EMISSION_SCENARIOS_def)

lemma py_round_near:
  "x - 1 / 20 \<le> py_round 1 x" "py_round 1 x \<le> x + 1 / 20"
proof -
  have "\<bar>py_round 1 x - x\<bar> \<le> (1 / 2) / 10 ^ 1" by (rule py_round_error)
  moreover have "(1 / 2) / 10 ^ 1 = (1 / 20 :: real)" by simp
  ultimately show "x - 1 / 20 \<le> py_round 1 x" "py_round 1 x \<le> x + 1 / 20" by linarith+
qed

lemma forcing_gap:
  fixes c b K :: real
  assumes b: "0 < b" and c: "0 < c" "c \<le> 800" and K: "1 / 10 \<le> K"
  defines "d \<equiv> (\<lambda>n. K * ln (py_round 1 (c + 25 / 10 * real (Suc n)) / b)
                     - K * ln (py_round 1 (c + 12 / 10 * real (Suc n)) / b))"
  shows "1 / 100 < sum d {0..<80}"
proof -
  let ?rb = "\<lambda>n. py_round 1 (c + 25 / 10 * real (Suc n))"
  let ?rm = "\<lambda>n. py_round 1 (c + 12 / 10 * real (Suc n))"
  have rm_pos: "0 < ?rm n" for n
  proof -
    have "1 \<le> real (Suc n)" by simp
    then have "12 / 10 \<le> 12 / 10 * real (Suc n)" by simp
    with c(1) py_round_near(1)[of "c + 12 / 10 * real (Suc n)"] show ?thesis by linarith
  qed
  have le: "?rm n \<le> ?rb n" for n
    by (intro py_round_mono) simp
  have d_eq: "d n = K * ln (?rb n / ?rm n)" for n
  proof -
    have "ln (?rb n / b) - ln (?rm n / b) = ln ((?rb n / b) / (?rm n / b))"
      using rm_pos[of n] le[of n] b by (subst ln_div[of "?rb n / b" "?rm n / b"]) auto
    also have "(?rb n / b) / (?rm n / b) = ?rb n / ?rm n"
      using b by simp
    finally show ?thesis by (simp add: d_def algebra_simps)
  qed
  have d_nonneg: "0 \<le> d n" for n
  proof -
    have "1 \<le> ?rb n / ?rm n" using rm_pos[of n] le[of n] by simp
    then have "0 \<le> ln (?rb n / ?rm n)" by simp
    with K show ?thesis unfolding d_eq by simp
  qed
  have last_gap: "1 / 100 < d 79"
  proof -
    have rb_lo: "c + 200 - 1 / 20 \<le> ?rb 79" and rb_hi: "?rb 79 \<le> c + 200 + 1 / 20"
      using py_round_near[of "c + 25 / 10 * real (Suc 79)"] by simp_all
    have rm_hi: "?rm 79 \<le> c + 96 + 1 / 20"
      using py_round_near(2)[of "c + 12 / 10 * real (Suc 79)"] by simp
    have rb_pos: "0 < ?rb 79" using rb_lo c(1) by linarith
    have ratio_pos: "0 < ?rb 79 / ?rm 79" using rb_pos rm_pos[of 79] by simp
    have "1039 / 10 \<le> ?rb 79 - ?rm 79" using rb_lo rm_hi by linarith
    then have "(1039 / 10) / ?rb 79 \<le> (?rb 79 - ?rm 79) / ?rb 79"
      using rb_pos by (intro divide_right_mono) simp_all
    moreover have "(1039 / 10) / (c + 200 + 1 / 20) \<le> (1039 / 10) / ?rb 79"
      using rb_pos rb_hi by (intro divide_left_mono) simp_all
    moreover have "(1039 / 10) / (800 + 200 + 1 / 20) \<le> (1039 / 10) / (c + 200 + 1 / 20)"
      using c by (intro divide_left_mono) simp_all
    moreover have "(?rb 79 - ?rm 79) / ?rb 79 = 1 - 1 / (?rb 79 / ?rm 79)"
      using rb_pos rm_pos[of 79] by (simp add: field_simps)
    moreover have "1 - 1 / (?rb 79 / ?rm 79) \<le> ln (?rb 79 / ?rm 79)"
      by (rule ln_lower[OF ratio_pos])
    ultimately have lnb: "(1039 / 10) / (800 + 200 + 1 / 20) \<le> ln (?rb 79 / ?rm 79)"
      by linarith
    have "(1 / 10) * ((1039 / 10) / (800 + 200 + 1 / 20)) \<le> K * ln (?rb 79 / ?rm 79)"
      using K lnb by (intro mult_mono) simp_all
    moreover have "1 / 100 < (1 / 10) * ((1039 / 10) / (800 + 200 + 1 / 20 :: real))" by simp
    ultimately show ?thesis unfolding d_eq by linarith
  qed
  have "d 79 \<le> sum d {0..<80}"
    by (rule member_le_sum) (simp_all add: d_nonneg)
  with last_gap show ?thesis by linarith
qed


lemma constant_scenario_sum:
  "sum_list (map (temp_change_of q) (co2_pure (\<lambda>_. a) c [0..80 - 1])) =
     (\<Sum>n = 0..<80. co2_sensitivity q * climate_sensitivity q / ocean_heat_capacity q *
        ln (py_round 1 (c + a * real (Suc n)) / baseline_co2 q))"
proof -
  have len: "length [0..80 - 1 :: int] = 80" by simp
  have "sum_list (map (temp_change_of q) (co2_pure (\<lambda>_. a) c [0..80 - 1])) =
      sum_list (map (\<lambda>n. temp_change_of q (py_round 1 (c + a * real (Suc n)))) [0..<80])"
    unfolding co2_pure_const len by (simp only: map_map o_def)
  also have "\<dots> = (\<Sum>n = 0..<80. temp_change_of q (py_round 1 (c + a * real (Suc n))))"
    by (simp only: interv_sum_list_conv_sum_set_nat set_upt)
  also have "\<dots> = (\<Sum>n = 0..<80. co2_sensitivity q * climate_sensitivity q / ocean_heat_capacity q *
        ln (py_round 1 (c + a * real (Suc n)) / baseline_co2 q))"
    by (rule sum.cong) (simp_all add: temp_change_of_def)
  finally show ?thesis .
qed

text \<open>
  Emission ordering of the annual-increment integrator \<open>run_climate_simulation\<close>. Run for
  80 years from the same start year, the same initial temperature and the same
  parameters, \<open>business_as_usual\<close> ends with a strictly higher recorded temperature than
  \<open>moderate_mitigation\<close>, for every start year, every initial temperature, every positive
  pre-industrial concentration, every initial concentration in (0, 800] ppm and every
  combined sensitivity \<open>co2_sensitivity * climate_sensitivity / ocean_heat_capacity\<close> of
  at least 0.1 (the defaults give 0.3057): the accumulated forcing difference then exceeds
  the rounding step 0.01 of the recorded temperatures. Without the bound on the
  sensitivity the two recorded temperatures can round to the same value. The temperatures
  of \<open>run_advanced_climate_simulation\<close> and of \<open>AdvancedClimateSimulator.run_simulation\<close>
  are whatever scipy's \<open>odeint\<close> and \<open>solve_ivp\<close> return; this statement says nothing
  about them.
\<close>

theorem business_as_usual_warmer:
  assumes bau: "run_climate_simulation cy ''business_as_usual'' 80 p = Inr bau"
    and mm: "run_climate_simulation cy ''moderate_mitigation'' 80 p = Inr mm"
    and b: "0 < baseline_co2 (params_or_default p)"
    and c: "0 < current_co2 (params_or_default p)" "current_co2 (params_or_default p) \<le> 800"
    and K: "1 / 10 \<le> co2_sensitivity (params_or_default p) *
              climate_sensitivity (params_or_default p) / ocean_heat_capacity (params_or_default p)"
  shows "temperature (last mm) < temperature (last bau)"
proof -
  let ?q = "params_or_default p"
  let ?K = "co2_sensitivity ?q * climate_sensitivity ?q / ocean_heat_capacity ?q"
  let ?S = "\<lambda>a. (\<Sum>n = 0..<80. ?K * ln (py_round 1 (current_co2 ?q + a * real (Suc n)) / baseline_co2 ?q))"
  have tb: "temperature (last bau) = py_round 2 (initial_temperature ?q + ?S (25 / 10))"
    using final_temperature[OF bau]
    by (simp only: resolve_scenario_constant scenario_increase_constant constant_scenario_sum)
  have tm: "temperature (last mm) = py_round 2 (initial_temperature ?q + ?S (12 / 10))"
    using final_temperature[OF mm]
    by (simp only: resolve_scenario_constant scenario_increase_constant constant_scenario_sum)
  have "1 / 100 < (\<Sum>n = 0..<80. ?K * ln (py_round 1 (current_co2 ?q + 25 / 10 * real (Suc n)) / baseline_co2 ?q)
                     - ?K * ln (py_round 1 (current_co2 ?q + 12 / 10 * real (Suc n)) / baseline_co2 ?q))"
    by (rule forcing_gap[OF b c K])
  then have "1 / 100 < ?S (25 / 10) - ?S (12 / 10)"
    by (simp only: sum_subtractf)
  then have "(initial_temperature ?q + ?S (12 / 10)) + 1 / 10 ^ 2 < initial_temperature ?q + ?S (25 / 10)"
    by simp
  then show ?thesis unfolding tb tm by (rule py_round_strict)
qed

theorem business_as_usual_warmer_witness:
  "0 < baseline_co2 (params_or_default None) \<and>
   0 < current_co2 (params_or_default None) \<and> current_co2 (params_or_default None) \<le> 800 \<and>
   1 / 10 \<le> co2_sensitivity (params_or_default None) *
              climate_sensitivity (params_or_default None) / ocean_heat_capacity (params_or_default None) \<and>
   (\<exists>bau mm. run_climate_simulation 2026 ''business_as_usual'' 80 None = Inr bau \<and>
      run_climate_simulation 2026 ''moderate_mitigation'' 80 None = Inr mm \<and>
      temperature (last mm) < temperature (last bau))"
proof -
  have b: "0 < baseline_co2 (params_or_default None)"
    and c: "0 < current_co2 (params_or_default None)" "current_co2 (params_or_default None) \<le> 800"
    and K: "1 / 10 \<le> co2_sensitivity (params_or_default None) *
              climate_sensitivity (params_or_default None) / ocean_heat_capacity (params_or_default None)"
    by (simp_all add: params_or_default_def DEFAULT_PARAMS_def)
  have nz: "baseline_co2 (params_or_default None) \<noteq> 0" using b by simp
  from simple_returns[OF nz] obtain bau where
    bau: "run_climate_simulation 2026 ''business_as_usual'' 80 None = Inr bau" by blast
  from simple_returns[OF nz] obtain mm where
    mm: "run_climate_simulation 2026 ''moderate_mitigation'' 80 None = Inr mm" by blast
  from business_as_usual_warmer[OF bau mm b c K] b c K bau mm show ?thesis by blast
qed


section \<open>Properties of the tipping-point analyzer\<close>

text \<open>The driving inputs of the coupled-equation simulator are ordered: after the start,
  \<open>business_as_usual\<close> emits strictly more than \<open>moderate_mitigation\<close>.\<close>

lemma emissions_ordering:
  assumes "0 < t"
  shows "create_emissions_scenario ''moderate_mitigation'' t
       < create_emissions_scenario ''business_as_usual'' t"
proof (cases "t < 30")
  case True
  have "0 \<le> t\<^sup>2 / 20" by simp
  moreover have "t / 2 < t" using assms by simp
  ultimately have "t / 2 - t\<^sup>2 / 20 < t" by linarith
  then show ?thesis using True by (simp add: create_emissions_scenario_def)
next
  case False
  then show ?thesis using assms by (simp add: create_emissions_scenario_def)
qed

lemma filter_first:
  "i < length xs \<Longrightarrow> P (xs ! i) \<Longrightarrow> (\<And>j. j < i \<Longrightarrow> \<not> P (xs ! j)) \<Longrightarrow>
   \<exists>rest. filter P xs = xs ! i # rest"
proof (induction xs arbitrary: i)
  case Nil
  then show ?case by simp
next
  case (Cons x xs)
  show ?case
  proof (cases i)
    case 0
    with Cons.prems show ?thesis by simp
  next
    case (Suc k)
    have nx: "\<not> P x" using Cons.prems(3)[of 0] Suc by simp
    have "\<exists>rest. filter P xs = xs ! k # rest"
    proof (rule Cons.IH)
      show "k < length xs" using Cons.prems(1) Suc by simp
      show "P (xs ! k)" using Cons.prems(2) Suc by simp
      show "\<not> P (xs ! j)" if "j < k" for j
        using Cons.prems(3)[of "Suc j"] that Suc by simp
    qed
    with nx Suc show ?thesis by simp
  qed
qed

lemma first_crossing_none:
  "(\<And>v. v \<in> set col \<Longrightarrow> \<not> test v) \<Longrightarrow> first_crossing test col years = None"
proof -
  assume a: "\<And>v. v \<in> set col \<Longrightarrow> \<not> test v"
  have "filter (\<lambda>(v, y). test v) (zip col years) = []"
    by (auto simp: filter_empty_conv dest: set_zip_leftD a)
  then show ?thesis by (simp add: first_crossing_def)
qed

lemma first_crossing_first:
  assumes "length years = length col" "i < length col" "test (col ! i)"
    and "\<And>j. j < i \<Longrightarrow> \<not> test (col ! j)"
  shows "first_crossing test col years = Some (py_int (years ! i))"
proof -
  have "\<exists>rest. filter (\<lambda>(v, y). test v) (zip col years) = zip col years ! i # rest"
    by (rule filter_first) (use assms in auto)
  then show ?thesis using assms(1,2) by (auto simp: first_crossing_def)
qed

lemma record_crossing_other:
  "k \<noteq> yk \<Longrightarrow> k \<noteq> lk \<Longrightarrow> record_crossing tp c yk lk l k = tp k"
  by (simp add: record_crossing_def split: option.splits)

lemma record_crossing_year:
  "yk \<noteq> lk \<Longrightarrow> tp yk = None \<Longrightarrow> record_crossing tp c yk lk l yk = map_option Year c"
  by (simp add: record_crossing_def split: option.splits)

lemma report_15:
  "analyze_tipping_points results ''1.5C_threshold_year'' =
     (case frame_temperature results of
        None \<Rightarrow> None
      | Some temps \<Rightarrow>
          map_option Year (first_crossing (at_least 1.5) temps (frame_year results)))"
  unfolding analyze_tipping_points_def Let_def
  by (cases "frame_temperature results"; cases "frame_ice_extent results")
     (simp_all add: record_crossing_other record_crossing_year)

text \<open>
  Claim C8 (first-crossing semantics). For temperatures 1.0, 1.3, 1.6, 2.1 in the years
  2025 to 2028 the analyzer reports 2027 under the key \<open>1.5C_threshold_year\<close>. In
  general, when no temperature reaches 1.5 the key is absent from the report, and
  otherwise the key holds the (truncated) year of the first row whose temperature is at
  least 1.5.
\<close>

theorem first_crossing_semantics:
  "analyze_tipping_points synthetic_frame ''1.5C_threshold_year'' = Some (Year 2027) \<and>
   (\<forall>(results :: sim_frame) temps.
      frame_temperature results = Some temps \<longrightarrow> (\<forall>v \<in> set temps. v < 1.5) \<longrightarrow>
      analyze_tipping_points results ''1.5C_threshold_year'' = None) \<and>
   (\<forall>(results :: sim_frame) temps i.
      frame_temperature results = Some temps \<longrightarrow>
      length (frame_year results) = length temps \<longrightarrow>
      i < length temps \<longrightarrow> temps ! i \<ge> 1.5 \<longrightarrow> (\<forall>j < i. temps ! j < 1.5) \<longrightarrow>
      analyze_tipping_points results ''1.5C_threshold_year'' =
        Some (Year (py_int (frame_year results ! i))))"
proof (intro conjI allI impI)
  show "analyze_tipping_points synthetic_frame ''1.5C_threshold_year'' = Some (Year 2027)"
    by (simp add: report_15 synthetic_frame_def first_crossing_def py_int_def at_least_def)
next
  fix results :: sim_frame and temps
  assume t: "frame_temperature results = Some temps" and c: "\<forall>v \<in> set temps. v < 1.5"
  have "first_crossing (at_least 1.5) temps (frame_year results) = None"
    by (rule first_crossing_none) (use c in \<open>auto simp: at_least_def\<close>)
  then show "analyze_tipping_points results ''1.5C_threshold_year'' = None"
    by (simp only: report_15 t option.case option.map)
next
  fix results :: sim_frame and temps i
  assume t: "frame_temperature results = Some temps"
    and l: "length (frame_year results) = length temps"
    and i: "i < length temps" and v: "temps ! i \<ge> 1.5" and b: "\<forall>j < i. temps ! j < 1.5"
  have "first_crossing (at_least 1.5) temps (frame_year results)
      = Some (py_int (frame_year results ! i))"
    by (rule first_crossing_first[OF l i]) (use v b in \<open>auto simp: at_least_def\<close>)
  then show "analyze_tipping_points results ''1.5C_threshold_year'' =
        Some (Year (py_int (frame_year results ! i)))"
    by (simp only: report_15 t option.case option.map)
qed

theorem first_crossing_semantics_witness:
  "frame_temperature cool_frame = Some [1.0, 1.2, 1.4] \<and>
   (1.0 :: real) < 1.5 \<and> (1.2 :: real) < 1.5 \<and> (1.4 :: real) < 1.5 \<and>
   analyze_tipping_points cool_frame ''1.5C_threshold_year'' = None \<and>
   frame_temperature synthetic_frame = Some [1.0, 1.3, 1.6, 2.1] \<and>
   length (frame_year synthetic_frame) = length [1.0, 1.3, 1.6, 2.1 :: real] \<and>
   (2::nat) < length [1.0, 1.3, 1.6, 2.1 :: real] \<and> [1.0, 1.3, 1.6, 2.1 :: real] ! 2 \<ge> 1.5 \<and>
   [1.0, 1.3, 1.6, 2.1 :: real] ! 0 < 1.5 \<and> [1.0, 1.3, 1.6, 2.1 :: real] ! 1 < 1.5 \<and>
   analyze_tipping_points synthetic_frame ''1.5C_threshold_year'' =
     Some (Year (py_int (frame_year synthetic_frame ! 2)))"
proof -
  have a: "frame_temperature cool_frame = Some [1.0, 1.2, 1.4]"
    by (simp add: cool_frame_def)
  have b: "\<forall>v \<in> set [1.0, 1.2, 1.4 :: real]. v < 1.5" by simp
  have c: "frame_temperature synthetic_frame = Some [1.0, 1.3, 1.6, 2.1]"
    and d: "length (frame_year synthetic_frame) = length [1.0, 1.3, 1.6, 2.1 :: real]"
    by (simp_all add: synthetic_frame_def)
  have e: "(2::nat) < length [1.0, 1.3, 1.6, 2.1 :: real]" "[1.0, 1.3, 1.6, 2.1 :: real] ! 2 \<ge> 1.5"
    by simp_all
  have f: "\<forall>j < 2. [1.0, 1.3, 1.6, 2.1 :: real] ! j < 1.5"
    by (simp add: less_Suc_eq numeral_2_eq_2)
  have g: "(1.0 :: real) < 1.5" "(1.2 :: real) < 1.5" "(1.4 :: real) < 1.5"
    "[1.0, 1.3, 1.6, 2.1 :: real] ! 0 < 1.5" "[1.0, 1.3, 1.6, 2.1 :: real] ! 1 < 1.5"
    by simp_all
  from first_crossing_semantics a b c d e f have
    "analyze_tipping_points cool_frame ''1.5C_threshold_year'' = None"
    "analyze_tipping_points synthetic_frame ''1.5C_threshold_year'' =
       Some (Year (py_int (frame_year synthetic_frame ! 2)))"
    by blast+
  with a c d e g show ?thesis by simp
qed

section \<open>Properties of the uncertainty generator\<close>

lemma uncertainty_profile:
  assumes "base_uncertainties pr v = Some b"
  shows "quantum_uncertainty_reduction pr v n =
     Inr (map (\<lambda>k. b * real (k + 1) powr (1 - quantum_advantage pr * 0.5)) [0..<nat n])"
  using assms by (simp add: quantum_uncertainty_reduction_def)

lemma powr_growth:
  assumes "0 \<le> b" "0 \<le> g" "i \<le> j"
  shows "b * real (i + 1) powr g \<le> b * real (j + 1) powr g"
proof -
  have "real (i + 1) powr g \<le> real (j + 1) powr g"
    using assms(2,3) by (intro powr_mono2) simp_all
  with assms(1) show ?thesis by (simp add: mult_left_mono)
qed

lemma prediction_row_fields:
  assumes "prediction_row v scenario years us (i, yr) = Inr r"
  shows "i < length us \<and> uncertainty r = us ! i \<and>
         lower_bound r = val r - 1.96 * uncertainty r \<and>
         upper_bound r = val r + 1.96 * uncertainty r"
proof -
  from assms obtain x u where u: "np_index us (int i) = Inr u"
    and r: "r = mk_row yr x (x - 1.96 * u) (x + 1.96 * u) u"
    by (auto simp: prediction_row_def split: sum.splits)
  from u have "i < length us \<and> u = us ! i"
    by (auto simp: np_index_def split: if_splits)
  then show ?thesis by (simp add: r mk_row_def)
qed

lemma enhanced_row:
  assumes "enhanced_generate_prediction pr cy v years scenario = Inr (Some rows)"
    and "base_uncertainties pr v = Some b" and "i < length rows"
  shows "uncertainty (rows ! i) = b * real (i + 1) powr (1 - quantum_advantage pr * 0.5) \<and>
         lower_bound (rows ! i) = val (rows ! i) - 1.96 * uncertainty (rows ! i) \<and>
         upper_bound (rows ! i) = val (rows ! i) + 1.96 * uncertainty (rows ! i)"
proof -
  have dom: "v \<in> dom (base_uncertainties pr)" using assms(2) by auto
  from assms(1) dom obtain us where us: "quantum_uncertainty_reduction pr v (years + 1) = Inr us"
    and fr: "for_rows (prediction_row v scenario years us) (enumerate 0 [cy..cy + years]) = Inr rows"
    unfolding enhanced_generate_prediction_def Let_def
    by (auto split: sum.splits)
  have us_eq: "us = map (\<lambda>k. b * real (k + 1) powr (1 - quantum_advantage pr * 0.5))
      [0..<nat (years + 1)]"
    using us uncertainty_profile[OF assms(2), of "years + 1"] by simp
  have len: "length rows = length (enumerate 0 [cy..cy + years])"
    by (rule for_rows_length[OF fr])
  then have i: "i < length (enumerate 0 [cy..cy + years])" using assms(3) by simp
  then have i': "i < length [cy..cy + years]" by simp
  have "prediction_row v scenario years us (enumerate 0 [cy..cy + years] ! i) = Inr (rows ! i)"
    by (rule for_rows_nth[OF fr i])
  then have "prediction_row v scenario years us (i, [cy..cy + years] ! i) = Inr (rows ! i)"
    using i' by (simp add: nth_enumerate_eq)
  from prediction_row_fields[OF this]
  have f: "i < length us" "uncertainty (rows ! i) = us ! i"
    "lower_bound (rows ! i) = val (rows ! i) - 1.96 * uncertainty (rows ! i)"
    "upper_bound (rows ! i) = val (rows ! i) + 1.96 * uncertainty (rows ! i)"
    by simp_all
  from f(1) have "us ! i = b * real (i + 1) powr (1 - quantum_advantage pr * 0.5)"
    unfolding us_eq by simp
  with f show ?thesis by simp
qed

lemma enhanced_returns:
  "\<exists>rows. enhanced_generate_prediction (new_predictor 0.5) 2026 ''temperature'' 2 ''moderate''
     = Inr (Some rows) \<and> length rows = 3"
  by (simp add: enhanced_generate_prediction_def new_predictor_def quantum_uncertainty_reduction_def
      enumerate_eq_zip prediction_row_def blended_value_def quantum_pattern_superposition_def trend_patterns_def
      scenario_weights_def pattern_array_def py_int_def np_index_def get_current_value_def Let_def)

text \<open>
  Claim C7. Let \<open>b\<close> be the base uncertainty of the variable and
  \<open>g = 1 - quantum_advantage * 0.5\<close> the growth exponent of the predictor, both not
  negative. Then the uncertainty generator returns, for every number of time steps, the
  sequence \<open>uncertainty(t) = b * (t + 1) ^ g\<close>, which is non-decreasing in \<open>t\<close>; and in
  every prediction that \<open>generate_prediction\<close> returns, the row of step \<open>t\<close> carries that
  uncertainty and the bounds value - 1.96 * uncertainty(t) and value + 1.96 * uncertainty(t).
\<close>

theorem uncertainty_growth_and_bounds:
  assumes "base_uncertainties pr v = Some b" and "0 \<le> b"
    and "0 \<le> 1 - quantum_advantage pr * 0.5"
  shows "(\<exists>us. quantum_uncertainty_reduction pr v n = Inr us \<and> length us = nat n \<and>
            (\<forall>t < nat n. us ! t = b * real (t + 1) powr (1 - quantum_advantage pr * 0.5)) \<and>
            (\<forall>i j. i \<le> j \<longrightarrow> j < nat n \<longrightarrow> us ! i \<le> us ! j)) \<and>
         (\<forall>rows. enhanced_generate_prediction pr cy v years scenario = Inr (Some rows) \<longrightarrow>
            (\<forall>i < length rows.
               uncertainty (rows ! i) = b * real (i + 1) powr (1 - quantum_advantage pr * 0.5) \<and>
               lower_bound (rows ! i) = val (rows ! i) - 1.96 * uncertainty (rows ! i) \<and>
               upper_bound (rows ! i) = val (rows ! i) + 1.96 * uncertainty (rows ! i)))"
proof (intro conjI allI impI)
  let ?g = "1 - quantum_advantage pr * 0.5"
  let ?us = "map (\<lambda>k. b * real (k + 1) powr ?g) [0..<nat n]"
  have us: "quantum_uncertainty_reduction pr v n = Inr ?us"
    by (rule uncertainty_profile[OF assms(1)])
  have mono: "?us ! i \<le> ?us ! j" if "i \<le> j" "j < nat n" for i j
    using that powr_growth[OF assms(2,3) that(1)] by simp
  show "\<exists>us. quantum_uncertainty_reduction pr v n = Inr us \<and> length us = nat n \<and>
            (\<forall>t < nat n. us ! t = b * real (t + 1) powr ?g) \<and>
            (\<forall>i j. i \<le> j \<longrightarrow> j < nat n \<longrightarrow> us ! i \<le> us ! j)"
    using us mono by (intro exI[of _ ?us]) simp
next
  fix rows i
  assume "enhanced_generate_prediction pr cy v years scenario = Inr (Some rows)" "i < length rows"
  from enhanced_row[OF this(1) assms(1) this(2)]
  show "uncertainty (rows ! i) = b * real (i + 1) powr (1 - quantum_advantage pr * 0.5)"
    "lower_bound (rows ! i) = val (rows ! i) - 1.96 * uncertainty (rows ! i)"
    "upper_bound (rows ! i) = val (rows ! i) + 1.96 * uncertainty (rows ! i)"
    by simp_all
qed

theorem uncertainty_growth_and_bounds_witness:
  "base_uncertainties (new_predictor 0.5) ''temperature'' = Some 0.15 \<and>
   (0::real) \<le> 0.15 \<and> 0 \<le> 1 - quantum_advantage (new_predictor 0.5) * 0.5 \<and>
   (\<exists>us. quantum_uncertainty_reduction (new_predictor 0.5) ''temperature'' 3 = Inr us \<and>
      length us = 3 \<and> us ! 0 \<le> us ! 2) \<and>
   (\<exists>rows. enhanced_generate_prediction (new_predictor 0.5) 2026 ''temperature'' 2 ''moderate''
        = Inr (Some rows) \<and> 1 < length rows \<and>
      uncertainty (rows ! 1) = 0.15 * real (1 + 1) powr (1 - quantum_advantage (new_predictor 0.5) * 0.5) \<and>
      lower_bound (rows ! 1) = val (rows ! 1) - 1.96 * uncertainty (rows ! 1) \<and>
      upper_bound (rows ! 1) = val (rows ! 1) + 1.96 * uncertainty (rows ! 1))"
proof -
  have a: "base_uncertainties (new_predictor 0.5) ''temperature'' = Some 0.15"
    and b: "(0::real) \<le> 0.15"
    and c: "0 \<le> 1 - quantum_advantage (new_predictor 0.5) * 0.5"
    by (simp_all add: new_predictor_def)
  note main = uncertainty_growth_and_bounds[OF a b c, of 3 2026 2 "''moderate''"]
  from main obtain us where us:
    "quantum_uncertainty_reduction (new_predictor 0.5) ''temperature'' 3 = Inr us"
    "length us = nat 3" "\<forall>i j. i \<le> j \<longrightarrow> j < nat 3 \<longrightarrow> us ! i \<le> us ! j"
    by blast
  from us(3) have "us ! 0 \<le> us ! 2" by simp
  with us(1,2) have first: "\<exists>us. quantum_uncertainty_reduction (new_predictor 0.5) ''temperature'' 3
      = Inr us \<and> length us = 3 \<and> us ! 0 \<le> us ! 2"
    by auto
  from enhanced_returns obtain rows where rows:
    "enhanced_generate_prediction (new_predictor 0.5) 2026 ''temperature'' 2 ''moderate''
       = Inr (Some rows)" "length rows = 3"
    by blast
  from rows(2) have l: "1 < length rows" by simp
  from main rows(1) l have
    "uncertainty (rows ! 1) = 0.15 * real (1 + 1) powr (1 - quantum_advantage (new_predictor 0.5) * 0.5) \<and>
     lower_bound (rows ! 1) = val (rows ! 1) - 1.96 * uncertainty (rows ! 1) \<and>
     upper_bound (rows ! 1) = val (rows ! 1) + 1.96 * uncertainty (rows ! 1)"
    by blast
  with rows(1) l have second: "\<exists>rows. enhanced_generate_prediction (new_predictor 0.5) 2026 ''temperature'' 2 ''moderate''
        = Inr (Some rows) \<and> 1 < length rows \<and>
      uncertainty (rows ! 1) = 0.15 * real (1 + 1) powr (1 - quantum_advantage (new_predictor 0.5) * 0.5) \<and>
      lower_bound (rows ! 1) = val (rows ! 1) - 1.96 * uncertainty (rows ! 1) \<and>
      upper_bound (rows ! 1) = val (rows ! 1) + 1.96 * uncertainty (rows ! 1)"
    by blast
  from a b c first second show ?thesis by blast
qed

end
